theory Spec2Isabelle
  imports Main "HOL-Library.Log_Nat" "HOL-Library.Word"
begin

section \<open>JavaScript values used by the OCR service\<close>

subsection \<open>Numbers\<close>

text \<open>
  A JavaScript \<^verbatim>\<open>number\<close> is an IEEE-754 binary64 value. Finite values are carried as
  the rational they denote; the sign of zero is not represented (the service never
  observes it: \<^verbatim>\<open>-0\<close> is falsy like \<^verbatim>\<open>0\<close>). Arithmetic results are rounded to the
  nearest binary64 value, ties to even, by \<open>toDouble\<close>.
\<close>

datatype jsnum = Num rat | PosInfinity | NegInfinity | NaN

definition pow2 :: "int \<Rightarrow> rat" where
  "pow2 e = (if 0 \<le> e then 2 ^ nat e else 1 / 2 ^ nat (- e))"

text \<open>\<open>ilog2 a\<close> is \<open>\<lfloor>log\<^sub>2 a\<rfloor>\<close> for positive \<open>a\<close>.\<close>

definition ilog2 :: "rat \<Rightarrow> int" where
  "ilog2 a = (if 1 \<le> a then bitlen \<lfloor>a\<rfloor> - 1 else - bitlen (\<lceil>1 / a\<rceil> - 1))"

definition roundHalfEven :: "rat \<Rightarrow> int" where
  "roundHalfEven x =
     (let f = \<lfloor>x\<rfloor>; d = x - of_int f
      in if d < 1 / 2 then f
         else if 1 / 2 < d then f + 1
         else if even f then f else f + 1)"

text \<open>
  Rounding of an exact result to binary64: 53 significant bits, the smallest exponent of
  the last place is \<open>-1074\<close> (subnormal numbers), a rounded magnitude of \<open>2\<^sup>1\<^sup>0\<^sup>2\<^sup>4\<close> or more
  overflows to an infinity.
\<close>

definition toDouble :: "rat \<Rightarrow> jsnum" where
  "toDouble x =
     (if x = 0 then Num 0
      else
        (let a = \<bar>x\<bar>;
             e = max (ilog2 a - 52) (- 1074);
             m = roundHalfEven (a / pow2 e);
             r = of_int m * pow2 e
         in if pow2 1024 \<le> r then (if 0 < x then PosInfinity else NegInfinity)
            else Num (if 0 < x then r else - r)))"

text \<open>\<^verbatim>\<open>x * k\<close> and \<^verbatim>\<open>x / k\<close> for a positive finite literal \<open>k\<close> (the source multiplies by
  \<^verbatim>\<open>100\<close> and \<^verbatim>\<open>1024\<close> and divides by \<^verbatim>\<open>1024\<close> only).\<close>

fun jsTimes :: "jsnum \<Rightarrow> rat \<Rightarrow> jsnum" where
  "jsTimes (Num a) k = toDouble (a * k)"
| "jsTimes PosInfinity k = PosInfinity"
| "jsTimes NegInfinity k = NegInfinity"
| "jsTimes NaN k = NaN"

fun jsOver :: "jsnum \<Rightarrow> rat \<Rightarrow> jsnum" where
  "jsOver (Num a) k = toDouble (a / k)"
| "jsOver PosInfinity k = PosInfinity"
| "jsOver NegInfinity k = NegInfinity"
| "jsOver NaN k = NaN"

text \<open>\<^verbatim>\<open>Math.round\<close>: the nearest integer, a tie goes towards \<open>+\<infinity>\<close>; exact on binary64.\<close>

fun mathRound :: "jsnum \<Rightarrow> jsnum" where
  "mathRound (Num a) = Num (of_int \<lfloor>a + 1 / 2\<rfloor>)"
| "mathRound PosInfinity = PosInfinity"
| "mathRound NegInfinity = NegInfinity"
| "mathRound NaN = NaN"

text \<open>\<^verbatim>\<open>n > y\<close> for a finite left operand (a buffer length); any comparison with
  \<^verbatim>\<open>NaN\<close> is false.\<close>

fun jsGreater :: "rat \<Rightarrow> jsnum \<Rightarrow> bool" where
  "jsGreater n (Num y) = (y < n)"
| "jsGreater n PosInfinity = False"
| "jsGreater n NegInfinity = True"
| "jsGreater n NaN = False"

fun jsLessEq :: "rat \<Rightarrow> jsnum \<Rightarrow> bool" where
  "jsLessEq n (Num y) = (n \<le> y)"
| "jsLessEq n PosInfinity = True"
| "jsLessEq n NegInfinity = False"
| "jsLessEq n NaN = False"

text \<open>\<^verbatim>\<open>v || d\<close> on an optional number and on an optional string: \<^verbatim>\<open>undefined\<close>,
  \<^verbatim>\<open>null\<close>, \<^verbatim>\<open>0\<close>, \<^verbatim>\<open>NaN\<close> and \<^verbatim>\<open>""\<close> are falsy.\<close>

definition numOr :: "jsnum option \<Rightarrow> jsnum \<Rightarrow> jsnum" where
  "numOr v d = (case v of None \<Rightarrow> d | Some n \<Rightarrow> if n = Num 0 \<or> n = NaN then d else n)"

definition strOr :: "string option \<Rightarrow> string \<Rightarrow> string" where
  "strOr v d = (case v of None \<Rightarrow> d | Some t \<Rightarrow> if t = [] then d else t)"

subsection \<open>Thrown values\<close>

text \<open>A thrown value is an \<^verbatim>\<open>Error\<close> instance with its message, or anything else.\<close>

datatype thrown = ErrorObj string | OtherValue

text \<open>\<^verbatim>\<open>error instanceof Error ? error.message : d\<close>\<close>

definition errorMessage :: "thrown \<Rightarrow> string \<Rightarrow> string" where
  "errorMessage e d = (case e of ErrorObj m \<Rightarrow> m | OtherValue \<Rightarrow> d)"

section \<open>Image validation (\<^verbatim>\<open>server/ocr.ts\<close>)\<close>

type_synonym buffer = "8 word list"

record validation =
  valid :: bool
  v_error :: "string option"

definition allowedMimeTypes :: "string list" where
  "allowedMimeTypes = [''image/jpeg'', ''image/png'', ''image/webp'', ''image/tiff'']"

text \<open>\<^verbatim>\<open>Array.prototype.join\<close>\<close>

fun joinWith :: "string \<Rightarrow> string list \<Rightarrow> string" where
  "joinWith sep [] = []"
| "joinWith sep [x] = x"
| "joinWith sep (x # y # ys) = x @ sep @ joinWith sep (y # ys)"

text \<open>A parameter with a default value: the argument when one is passed, else the
  default. The default of \<^verbatim>\<open>maxSizeBytes\<close> is \<^verbatim>\<open>10 * 1024 * 1024\<close>.\<close>

definition paramOr :: "'a option \<Rightarrow> 'a \<Rightarrow> 'a" where
  "paramOr arg d = (case arg of None \<Rightarrow> d | Some a \<Rightarrow> a)"

definition defaultMaxSizeBytes :: jsnum where
  "defaultMaxSizeBytes = jsTimes (jsTimes (Num 10) 1024) 1024"

text \<open>
  \<open>numberToString\<close> is the conversion a template literal applies to a number; it is a
  parameter. The optional third argument is \<open>None\<close> when the caller omits it.
\<close>

definition validateImageFile ::
  "(jsnum \<Rightarrow> string) \<Rightarrow> buffer \<Rightarrow> string \<Rightarrow> jsnum option \<Rightarrow> validation" where
  "validateImageFile numberToString buffer mimeType maxSizeArg =
     (let maxSizeBytes = paramOr maxSizeArg defaultMaxSizeBytes
      in if jsGreater (of_nat (length buffer)) maxSizeBytes then
           \<lparr>valid = False,
            v_error = Some (''File size exceeds maximum of ''
                           @ numberToString (jsOver (jsOver maxSizeBytes 1024) 1024) @ ''MB'')\<rparr>
         else if mimeType \<notin> set allowedMimeTypes then
           \<lparr>valid = False,
            v_error = Some (''Unsupported image format. Allowed: ''
                           @ joinWith '', '' allowedMimeTypes)\<rparr>
         else \<lparr>valid = True, v_error = None\<rparr>)"

section \<open>State, collaborators and effects\<close>

text \<open>
  An engine instance (\<^verbatim>\<open>tesseract.js\<close> worker) and a database handle are objects with an
  identity.
\<close>

datatype worker = Worker nat

datatype dbhandle = DbHandle string

text \<open>The result of \<^verbatim>\<open>sharp(...).metadata()\<close>; only \<^verbatim>\<open>width\<close> is read.\<close>

record metadata =
  width :: "nat option"

text \<open>A \<^verbatim>\<open>sharp\<close> pipeline records the requested operations; \<^verbatim>\<open>toBuffer\<close> runs them.\<close>

record resize_request =
  toWidth :: nat
  toHeight :: nat
  fit :: string
  withoutEnlargement :: bool

record pipeline =
  source :: buffer
  resizing :: "resize_request option"
  toGrayscale :: bool

text \<open>\<^verbatim>\<open>result.data\<close> of \<^verbatim>\<open>worker.recognize\<close>; both fields may be missing.\<close>

record recognized =
  dataText :: "string option"
  dataConfidence :: "jsnum option"

text \<open>\<^verbatim>\<open>InsertOcrResult\<close> and a row of table \<^verbatim>\<open>ocrResults\<close> (\<^verbatim>\<open>drizzle/schema.ts\<close>). The
  columns \<^verbatim>\<open>createdAt\<close> and \<^verbatim>\<open>updatedAt\<close> are filled by the database server and are left
  out.\<close>

record insert_ocr_result =
  userId :: int
  imageFileName :: string
  imageUrl :: string
  extractedText :: string
  confidence :: jsnum
  language :: string
  processingTimeMs :: int

record ocr_row = insert_ocr_result +
  rowId :: int

datatype statement = InsertOcrResult insert_ocr_result | DeleteOcrResult int int

text \<open>
  The collaborators the service calls, over an external world \<open>'x\<close>. A call that can
  throw returns \<open>Inl\<close> of the thrown value. \<open>execute\<close> says whether the database accepts a
  statement; \<open>DATABASE_URL\<close> is the environment variable.
\<close>

record 'x env =
  numberToString :: "jsnum \<Rightarrow> string"
  base64Decode :: "string \<Rightarrow> buffer"
  dateNow :: "'x \<Rightarrow> int \<times> 'x"
  nanoid :: "'x \<Rightarrow> string \<times> 'x"
  sharpMetadata :: "buffer \<Rightarrow> 'x \<Rightarrow> (thrown + metadata) \<times> 'x"
  sharpToBuffer :: "pipeline \<Rightarrow> 'x \<Rightarrow> (thrown + buffer) \<times> 'x"
  createWorker :: "string \<Rightarrow> 'x \<Rightarrow> (thrown + worker) \<times> 'x"
  recognize :: "worker \<Rightarrow> buffer \<Rightarrow> 'x \<Rightarrow> (thrown + recognized) \<times> 'x"
  terminate :: "worker \<Rightarrow> 'x \<Rightarrow> (thrown + unit) \<times> 'x"
  storagePut :: "string \<Rightarrow> buffer \<Rightarrow> string \<Rightarrow> 'x \<Rightarrow> (thrown + string) \<times> 'x"
  DATABASE_URL :: "string option"
  drizzle :: "string \<Rightarrow> thrown + dbhandle"
  execute :: "statement \<Rightarrow> 'x \<Rightarrow> (thrown + unit) \<times> 'x"

text \<open>
  The module variables \<^verbatim>\<open>ocrWorker\<close> (\<^verbatim>\<open>ocr.ts\<close>) and \<^verbatim>\<open>_db\<close> (\<^verbatim>\<open>db.ts\<close>), the contents
  of table \<^verbatim>\<open>ocrResults\<close> with its auto-increment counter, and the external world.
\<close>

record 'x state =
  ocrWorker :: "worker option"
  db_handle :: "dbhandle option"
  ocrResults :: "ocr_row list"
  nextId :: int
  ext :: 'x

text \<open>A computation runs on a state and either throws or returns.\<close>

type_synonym ('x, 'a) io = "'x state \<Rightarrow> (thrown + 'a) \<times> 'x state"

definition ret :: "'a \<Rightarrow> ('x, 'a) io" where
  "ret a = (\<lambda>s. (Inr a, s))"

definition throw :: "thrown \<Rightarrow> ('x, 'a) io" where
  "throw e = (\<lambda>s. (Inl e, s))"

definition andThen :: "('x, 'a) io \<Rightarrow> ('a \<Rightarrow> ('x, 'b) io) \<Rightarrow> ('x, 'b) io" where
  "andThen m f = (\<lambda>s. case m s of (Inl e, s') \<Rightarrow> (Inl e, s') | (Inr a, s') \<Rightarrow> f a s')"

definition tryCatch :: "('x, 'a) io \<Rightarrow> (thrown \<Rightarrow> ('x, 'a) io) \<Rightarrow> ('x, 'a) io" where
  "tryCatch m h = (\<lambda>s. case m s of (Inl e, s') \<Rightarrow> h e s' | (Inr a, s') \<Rightarrow> (Inr a, s'))"

definition external :: "('x \<Rightarrow> (thrown + 'a) \<times> 'x) \<Rightarrow> ('x, 'a) io" where
  "external f = (\<lambda>s. case f (ext s) of (r, x) \<Rightarrow> (r, s\<lparr>ext := x\<rparr>))"

definition externalTotal :: "('x \<Rightarrow> 'a \<times> 'x) \<Rightarrow> ('x, 'a) io" where
  "externalTotal f = (\<lambda>s. case f (ext s) of (a, x) \<Rightarrow> (Inr a, s\<lparr>ext := x\<rparr>))"

section \<open>The recognition engine (\<^verbatim>\<open>server/ocr.ts\<close>)\<close>

definition setOcrWorker :: "worker option \<Rightarrow> ('x, unit) io" where
  "setOcrWorker v = (\<lambda>s. (Inr (), s\<lparr>ocrWorker := v\<rparr>))"

definition getOcrWorker :: "'x env \<Rightarrow> ('x, worker) io" where
  "getOcrWorker env =
     (\<lambda>s. case ocrWorker s of
             None \<Rightarrow>
               tryCatch
                 (andThen (external (createWorker env ''eng'')) (\<lambda>created.
                  andThen (setOcrWorker (Some created)) (\<lambda>_.
                  ret created)))
                 (\<lambda>error. throw (ErrorObj ''Failed to initialize OCR worker'')) s
           | Some w \<Rightarrow> ret w s)"

definition terminateOcrWorker :: "'x env \<Rightarrow> ('x, unit) io" where
  "terminateOcrWorker env =
     (\<lambda>s. case ocrWorker s of
             None \<Rightarrow> ret () s
           | Some w \<Rightarrow>
               tryCatch
                 (andThen (external (terminate env w)) (\<lambda>_. setOcrWorker None))
                 (\<lambda>error. ret ()) s)"

text \<open>
  \<^verbatim>\<open>getOcrWorker\<close> is an \<^verbatim>\<open>async\<close> function: it runs without interruption up to
  \<^verbatim>\<open>await createWorker("eng")\<close>, where other callers may run, and again from the
  settlement of that promise to its return. \<open>getOcrWorker_begin\<close> is the first
  segment (the construction is started there), \<open>getOcrWorker_resume\<close> the second.
\<close>

datatype pending = Awaiting "thrown + worker" | Finished "thrown + worker"

definition getOcrWorker_begin :: "'x env \<Rightarrow> 'x state \<Rightarrow> pending \<times> 'x state" where
  "getOcrWorker_begin env s =
     (case ocrWorker s of
        None \<Rightarrow> (case createWorker env ''eng'' (ext s) of (r, x) \<Rightarrow> (Awaiting r, s\<lparr>ext := x\<rparr>))
      | Some w \<Rightarrow> (Finished (Inr w), s))"

definition getOcrWorker_resume :: "pending \<Rightarrow> 'x state \<Rightarrow> (thrown + worker) \<times> 'x state" where
  "getOcrWorker_resume p s =
     (case p of
        Awaiting (Inr created) \<Rightarrow> (Inr created, s\<lparr>ocrWorker := Some created\<rparr>)
      | Awaiting (Inl error) \<Rightarrow> (Inl (ErrorObj ''Failed to initialize OCR worker''), s)
      | Finished r \<Rightarrow> (r, s))"

text \<open>
  Two calls that overlap: the second caller enters while the first awaits its
  construction, then the first resumes, then the second. The result holds what the two
  callers receive.
\<close>

definition twoOverlappingCalls ::
  "'x env \<Rightarrow> 'x state \<Rightarrow> ((thrown + worker) \<times> (thrown + worker)) \<times> 'x state" where
  "twoOverlappingCalls env s =
     (case getOcrWorker_begin env s of (pendingA, s1) \<Rightarrow>
      case getOcrWorker_begin env s1 of (pendingB, s2) \<Rightarrow>
      case getOcrWorker_resume pendingA s2 of (resultA, s3) \<Rightarrow>
      case getOcrWorker_resume pendingB s3 of (resultB, s4) \<Rightarrow>
        ((resultA, resultB), s4))"

section \<open>Optimization and recognition (\<^verbatim>\<open>server/ocr.ts\<close>)\<close>

definition sharp :: "buffer \<Rightarrow> pipeline" where
  "sharp b = \<lparr>source = b, resizing = None, toGrayscale = False\<rparr>"

definition resize :: "nat \<Rightarrow> nat \<Rightarrow> string \<Rightarrow> bool \<Rightarrow> pipeline \<Rightarrow> pipeline" where
  "resize w h f noEnlarge p =
     p\<lparr>resizing := Some \<lparr>toWidth = w, toHeight = h, fit = f, withoutEnlargement = noEnlarge\<rparr>\<rparr>"

definition grayscale :: "pipeline \<Rightarrow> pipeline" where
  "grayscale p = p\<lparr>toGrayscale := True\<rparr>"

text \<open>\<^verbatim>\<open>metadata.width && metadata.width > 4000\<close>\<close>

definition tooWide :: "metadata \<Rightarrow> bool" where
  "tooWide m = (case width m of None \<Rightarrow> False | Some w \<Rightarrow> w \<noteq> 0 \<and> 4000 < w)"

definition optimizeImage :: "'x env \<Rightarrow> buffer \<Rightarrow> ('x, buffer) io" where
  "optimizeImage env imageBuffer =
     tryCatch
       (andThen (external (sharpMetadata env imageBuffer)) (\<lambda>metadata.
          (let pipeline = sharp imageBuffer;
               pipeline = (if tooWide metadata
                           then resize 4000 4000 ''inside'' True pipeline else pipeline);
               pipeline = grayscale pipeline
           in external (sharpToBuffer env pipeline))))
       (\<lambda>error. ret imageBuffer)"

record ocr_outcome =
  o_text :: string
  o_confidence :: jsnum
  o_language :: string
  o_processingTimeMs :: int
  o_success :: bool
  o_error :: "string option"

text \<open>
  Field \<open>o_f\<close> is field \<^verbatim>\<open>f\<close> of the object the function returns; \<open>lang\<close> is the value
  of parameter \<^verbatim>\<open>language\<close>. Logging is not modelled.
\<close>

definition processImageWithOcr :: "'x env \<Rightarrow> buffer \<Rightarrow> string \<Rightarrow> ('x, ocr_outcome) io" where
  "processImageWithOcr env imageBuffer lang =
     andThen (externalTotal (dateNow env)) (\<lambda>startTime.
       tryCatch
         (andThen (optimizeImage env imageBuffer) (\<lambda>optimizedBuffer.
          andThen (getOcrWorker env) (\<lambda>w.
          andThen (external (recognize env w optimizedBuffer)) (\<lambda>result.
          andThen (externalTotal (dateNow env)) (\<lambda>endTime.
          ret \<lparr>o_text = strOr (dataText result) [],
               o_confidence = mathRound (jsTimes (numOr (dataConfidence result) (Num 0)) 100),
               o_language = lang,
               o_processingTimeMs = endTime - startTime,
               o_success = True,
               o_error = None\<rparr>)))))
         (\<lambda>thrownValue.
          andThen (externalTotal (dateNow env)) (\<lambda>endTime.
          ret \<lparr>o_text = [],
               o_confidence = Num 0,
               o_language = lang,
               o_processingTimeMs = endTime - startTime,
               o_success = False,
               o_error = Some (errorMessage thrownValue ''Unknown error'')\<rparr>)))"

section \<open>The result store (\<^verbatim>\<open>server/db.ts\<close>)\<close>

definition getDb :: "'x env \<Rightarrow> ('x, dbhandle option) io" where
  "getDb env =
     (\<lambda>s. if db_handle s = None \<and> strOr (DATABASE_URL env) [] \<noteq> [] then
             (case drizzle env (strOr (DATABASE_URL env) []) of
                Inr h \<Rightarrow> (Inr (Some h), s\<lparr>db_handle := Some h\<rparr>)
              | Inl error \<Rightarrow> (Inr None, s\<lparr>db_handle := None\<rparr>))
           else (Inr (db_handle s), s))"

text \<open>The store is unavailable when \<^verbatim>\<open>getDb\<close> has no handle and cannot make one: the
  variable is unset or empty, or \<^verbatim>\<open>drizzle\<close> throws.\<close>

definition storeUnavailable :: "'x env \<Rightarrow> 'x state \<Rightarrow> bool" where
  "storeUnavailable env s =
     (db_handle s = None
      \<and> (strOr (DATABASE_URL env) [] = [] \<or> isl (drizzle env (strOr (DATABASE_URL env) []))))"

text \<open>
  \<^verbatim>\<open>db.insert(ocrResults).values(result)\<close> and
  \<^verbatim>\<open>db.delete(ocrResults).where(and(eq(id, ..), eq(userId, ..)))\<close>: a statement the database
  refuses throws and leaves the table as it was; an insert adds one row under the next
  auto-increment id, a delete removes the rows that satisfy the condition.
\<close>

definition insertValues :: "'x env \<Rightarrow> insert_ocr_result \<Rightarrow> ('x, unit) io" where
  "insertValues env r =
     andThen (external (execute env (InsertOcrResult r))) (\<lambda>_ s.
       (Inr (),
        s\<lparr>ocrResults := ocrResults s @
             [\<lparr>userId = userId r, imageFileName = imageFileName r, imageUrl = imageUrl r,
               extractedText = extractedText r, confidence = confidence r,
               language = language r, processingTimeMs = processingTimeMs r,
               rowId = nextId s\<rparr>],
          nextId := nextId s + 1\<rparr>))"

definition deleteWhere :: "'x env \<Rightarrow> int \<Rightarrow> int \<Rightarrow> ('x, unit) io" where
  "deleteWhere env idArg userIdArg =
     andThen (external (execute env (DeleteOcrResult idArg userIdArg))) (\<lambda>_ s.
       (Inr (),
        s\<lparr>ocrResults :=
             filter (\<lambda>row. \<not> (rowId row = idArg \<and> userId row = userIdArg)) (ocrResults s)\<rparr>))"

text \<open>The result \<open>None\<close> is \<^verbatim>\<open>undefined\<close>.\<close>

definition saveOcrResult :: "'x env \<Rightarrow> insert_ocr_result \<Rightarrow> ('x, insert_ocr_result option) io" where
  "saveOcrResult env result =
     andThen (getDb env) (\<lambda>db.
       case db of
         None \<Rightarrow> ret None
       | Some h \<Rightarrow>
           tryCatch
             (andThen (insertValues env result) (\<lambda>_. ret (Some result)))
             (\<lambda>error. throw error))"

definition deleteOcrResult :: "'x env \<Rightarrow> int \<Rightarrow> int \<Rightarrow> ('x, bool) io" where
  "deleteOcrResult env idArg userIdArg =
     andThen (getDb env) (\<lambda>db.
       case db of
         None \<Rightarrow> ret False
       | Some h \<Rightarrow>
           tryCatch
             (andThen (deleteWhere env idArg userIdArg) (\<lambda>result. ret True))
             (\<lambda>error. throw error))"

section \<open>The endpoints (\<^verbatim>\<open>server/routers.ts\<close>)\<close>

text \<open>
  The handlers run behind \<^verbatim>\<open>protectedProcedure\<close> and the \<^verbatim>\<open>zod\<close> parser: \<open>ctxUserId\<close> is
  \<^verbatim>\<open>ctx.user.id\<close> of the authenticated caller, and the input is the parsed one (field
  \<open>i_f\<close> is field \<^verbatim>\<open>f\<close> of an image of the request, \<^verbatim>\<open>language\<close> already defaulted).
  Fields \<open>p_f\<close>, \<open>r_f\<close>, \<open>e_f\<close> and \<open>b_f\<close> are the fields \<^verbatim>\<open>f\<close> of the objects the
  handlers build.
\<close>

record image_input =
  i_imageData :: string
  i_fileName :: string
  i_mimeType :: string
  i_language :: string

record image_response =
  p_success :: bool
  p_text :: string
  p_confidence :: jsnum
  p_processingTimeMs :: int
  p_imageUrl :: string

record item_success =
  r_fileName :: string
  r_text :: string
  r_confidence :: jsnum
  r_processingTimeMs :: int
  r_imageUrl :: string
  r_success :: bool

record item_error =
  e_fileName :: string
  e_error :: string

record batch_outcome =
  b_success :: bool
  results :: "item_success list"
  errors :: "item_error list"
  totalProcessed :: nat
  totalFailed :: nat

record delete_response =
  d_success :: bool

text \<open>\<^verbatim>\<open>`ocr/${ctx.user.id}/${nanoid()}-${fileName}`\<close>\<close>

definition fileKeyOf :: "'x env \<Rightarrow> int \<Rightarrow> string \<Rightarrow> string \<Rightarrow> string" where
  "fileKeyOf env ctxUserId token name =
     ''ocr/'' @ numberToString env (Num (of_int ctxUserId)) @ ''/'' @ token @ ''-'' @ name"

definition processImage :: "'x env \<Rightarrow> int \<Rightarrow> image_input \<Rightarrow> ('x, image_response) io" where
  "processImage env ctxUserId input =
     tryCatch
       (let imageBuffer = base64Decode env (i_imageData input);
            validation = validateImageFile (numberToString env) imageBuffer (i_mimeType input) None
        in if \<not> valid validation then
             throw (ErrorObj (strOr (v_error validation) ''Invalid image''))
           else
             andThen (processImageWithOcr env imageBuffer (i_language input)) (\<lambda>ocrResult.
               if \<not> o_success ocrResult then
                 throw (ErrorObj (strOr (o_error ocrResult) ''OCR processing failed''))
               else
                 andThen (externalTotal (nanoid env)) (\<lambda>token.
                 andThen (external (storagePut env
                            (fileKeyOf env ctxUserId token (i_fileName input))
                            imageBuffer (i_mimeType input))) (\<lambda>url.
                 andThen (saveOcrResult env
                            \<lparr>userId = ctxUserId,
                             imageFileName = i_fileName input,
                             imageUrl = url,
                             extractedText = o_text ocrResult,
                             confidence = o_confidence ocrResult,
                             language = i_language input,
                             processingTimeMs = o_processingTimeMs ocrResult\<rparr>) (\<lambda>_.
                 ret \<lparr>p_success = True,
                      p_text = o_text ocrResult,
                      p_confidence = o_confidence ocrResult,
                      p_processingTimeMs = o_processingTimeMs ocrResult,
                      p_imageUrl = url\<rparr>)))))
       (\<lambda>error. throw (ErrorObj (errorMessage error ''Failed to process image'')))"

definition deleteResult :: "'x env \<Rightarrow> int \<Rightarrow> int \<Rightarrow> ('x, delete_response) io" where
  "deleteResult env ctxUserId idArg =
     tryCatch
       (andThen (deleteOcrResult env idArg ctxUserId) (\<lambda>_. ret \<lparr>d_success = True\<rparr>))
       (\<lambda>error. throw (ErrorObj ''Failed to delete OCR result''))"

text \<open>
  One iteration of the loop of \<^verbatim>\<open>processBatch\<close> on the arrays \<^verbatim>\<open>results\<close> and \<^verbatim>\<open>errors\<close>.
  A \<^verbatim>\<open>push\<close> is the last statement an iteration runs, so the handler of the iteration's
  \<^verbatim>\<open>catch\<close> sees the arrays as they were when the iteration began.
\<close>

definition batchItem ::
  "'x env \<Rightarrow> int \<Rightarrow> image_input \<Rightarrow> item_success list \<times> item_error list
     \<Rightarrow> ('x, item_success list \<times> item_error list) io" where
  "batchItem env ctxUserId img acc =
     (case acc of (resultsArr, errorsArr) \<Rightarrow>
        tryCatch
          (let imageBuffer = base64Decode env (i_imageData img);
               validation = validateImageFile (numberToString env) imageBuffer (i_mimeType img) None
           in if \<not> valid validation then
                ret (resultsArr,
                     errorsArr @ [\<lparr>e_fileName = i_fileName img,
                                   e_error = strOr (v_error validation) ''Invalid image''\<rparr>])
              else
                andThen (processImageWithOcr env imageBuffer (i_language img)) (\<lambda>ocrResult.
                  if \<not> o_success ocrResult then
                    ret (resultsArr,
                         errorsArr @ [\<lparr>e_fileName = i_fileName img,
                                       e_error = strOr (o_error ocrResult) ''OCR processing failed''\<rparr>])
                  else
                    andThen (externalTotal (nanoid env)) (\<lambda>token.
                    andThen (external (storagePut env
                               (fileKeyOf env ctxUserId token (i_fileName img))
                               imageBuffer (i_mimeType img))) (\<lambda>url.
                    andThen (saveOcrResult env
                               \<lparr>userId = ctxUserId,
                                imageFileName = i_fileName img,
                                imageUrl = url,
                                extractedText = o_text ocrResult,
                                confidence = o_confidence ocrResult,
                                language = i_language img,
                                processingTimeMs = o_processingTimeMs ocrResult\<rparr>) (\<lambda>_.
                    ret (resultsArr @ [\<lparr>r_fileName = i_fileName img,
                                        r_text = o_text ocrResult,
                                        r_confidence = o_confidence ocrResult,
                                        r_processingTimeMs = o_processingTimeMs ocrResult,
                                        r_imageUrl = url,
                                        r_success = True\<rparr>],
                         errorsArr))))))
          (\<lambda>error.
             ret (resultsArr,
                  errorsArr @ [\<lparr>e_fileName = i_fileName img,
                                e_error = errorMessage error ''Unknown error''\<rparr>])))"

text \<open>The loop \<^verbatim>\<open>for (let i = 0; i < input.images.length; i++)\<close>.\<close>

fun batchLoop ::
  "'x env \<Rightarrow> int \<Rightarrow> image_input list \<Rightarrow> item_success list \<times> item_error list
     \<Rightarrow> ('x, item_success list \<times> item_error list) io" where
  "batchLoop env ctxUserId [] acc = ret acc"
| "batchLoop env ctxUserId (img # rest) acc =
     andThen (batchItem env ctxUserId img acc) (batchLoop env ctxUserId rest)"

definition processBatch :: "'x env \<Rightarrow> int \<Rightarrow> image_input list \<Rightarrow> ('x, batch_outcome) io" where
  "processBatch env ctxUserId images =
     andThen (batchLoop env ctxUserId images ([], [])) (\<lambda>acc.
       case acc of (resultsArr, errorsArr) \<Rightarrow>
         ret \<lparr>b_success = True,
              results = resultsArr,
              errors = errorsArr,
              totalProcessed = length resultsArr,
              totalFailed = length errorsArr\<rparr>)"

section \<open>A test double for the collaborators\<close>

text \<open>
  A small world to run the service in: a clock in milliseconds and the number of engines
  constructed so far. Recognition takes 40 ms and reads \<^verbatim>\<open>hello\<close> with confidence \<open>0.5\<close>;
  the image library reports a width of 100 px and prefixes its output with two bytes that
  tell whether grayscale and a resize were requested; every construction yields a new
  engine; storage and the database accept everything.
\<close>

record world =
  clock :: int
  constructed :: nat

definition demoNumberToString :: "jsnum \<Rightarrow> string" where
  "demoNumberToString n =
     (if n = Num 10 then ''10'' else if n = Num 7 then ''7'' else ''?'')"

definition demoToBuffer :: "pipeline \<Rightarrow> buffer" where
  "demoToBuffer p =
     (if toGrayscale p then 1 else 0) # (if resizing p = None then 0 else 1) # source p"

definition demoEnv :: "world env" where
  "demoEnv =
     \<lparr>numberToString = demoNumberToString,
      base64Decode = (\<lambda>encoded. replicate (length encoded) 0),
      dateNow = (\<lambda>x. (clock x, x)),
      nanoid = (\<lambda>x. (''V1StGXR8'', x)),
      sharpMetadata = (\<lambda>b x. (Inr \<lparr>width = Some 100\<rparr>, x)),
      sharpToBuffer = (\<lambda>p x. (Inr (demoToBuffer p), x)),
      createWorker = (\<lambda>l x. (Inr (Worker (constructed x)),
                               x\<lparr>constructed := Suc (constructed x)\<rparr>)),
      recognize = (\<lambda>w b x. (Inr \<lparr>dataText = Some ''hello'', dataConfidence = Some (Num (1 / 2))\<rparr>,
                              x\<lparr>clock := clock x + 40\<rparr>)),
      terminate = (\<lambda>w x. (Inr (), x)),
      storagePut = (\<lambda>key b m x. (Inr (''https://files/'' @ key), x)),
      DATABASE_URL = Some ''mysql://db'',
      drizzle = (\<lambda>url. Inr (DbHandle url)),
      execute = (\<lambda>st x. (Inr (), x))\<rparr>"

definition demoState :: "world state" where
  "demoState =
     \<lparr>ocrWorker = None, db_handle = None, ocrResults = [], nextId = 1,
      ext = \<lparr>clock = 1000, constructed = 0\<rparr>\<rparr>"

definition demoImage :: image_input where
  "demoImage =
     \<lparr>i_imageData = ''aGVsbG8='', i_fileName = ''scan.png'', i_mimeType = ''image/png'',
      i_language = ''eng''\<rparr>"

text \<open>
  Collaborators that fail on some inputs: recognition throws a non-\<^verbatim>\<open>Error\<close> value on an
  empty image, storage refuses \<^verbatim>\<open>image/webp\<close>, the database refuses a language longer
  than the ten characters of its column. \<open>demoBatch\<close> holds one image for each kind of
  failure and one that succeeds; \<open>demoStore\<close> holds a record of user 7 and one of user 8.
\<close>

definition flakyEnv :: "world env" where
  "flakyEnv =
     demoEnv
       \<lparr>recognize := (\<lambda>w b x. if length b \<le> 2 then (Inl OtherValue, x)
                               else recognize demoEnv w b x),
        storagePut := (\<lambda>key b m x. if m = ''image/webp''
                                    then (Inl (ErrorObj ''bucket unreachable''), x)
                                    else storagePut demoEnv key b m x),
        execute := (\<lambda>st x. case st of
                              InsertOcrResult r \<Rightarrow>
                                if 10 < length (language r)
                                then (Inl (ErrorObj ''Data too long for column language''), x)
                                else (Inr (), x)
                            | DeleteOcrResult i u \<Rightarrow> (Inr (), x))\<rparr>"

definition demoBatch :: "image_input list" where
  "demoBatch =
     [demoImage\<lparr>i_fileName := ''a.pdf'', i_mimeType := ''application/pdf''\<rparr>,
      demoImage\<lparr>i_fileName := ''b.png'', i_imageData := []\<rparr>,
      demoImage\<lparr>i_fileName := ''c.webp'', i_mimeType := ''image/webp''\<rparr>,
      demoImage\<lparr>i_fileName := ''d.png'', i_language := ''english-uk-x''\<rparr>,
      demoImage]"

definition demoRow :: "int \<Rightarrow> int \<Rightarrow> ocr_row" where
  "demoRow rid uid =
     \<lparr>userId = uid, imageFileName = ''scan.png'',
      imageUrl = ''https://files/ocr/scan.png'', extractedText = ''hello'',
      confidence = Num 50, language = ''eng'', processingTimeMs = 40, rowId = rid\<rparr>"

definition demoStore :: "world state" where
  "demoStore = demoState\<lparr>ocrResults := [demoRow 1 7, demoRow 2 8], nextId := 3\<rparr>"

text \<open>The test double with one collaborator changed: an engine that cannot be constructed
  (the attempt takes 5 ms), a recognition that throws after 9 ms, an image 6000 px wide,
  metadata that cannot be read, an encoder that throws, and no database configured.\<close>

definition engineDownEnv :: "world env" where
  "engineDownEnv =
     demoEnv\<lparr>createWorker := (\<lambda>l x. (Inl OtherValue, x\<lparr>clock := clock x + 5\<rparr>))\<rparr>"

definition recognitionFailsEnv :: "world env" where
  "recognitionFailsEnv =
     demoEnv\<lparr>recognize := (\<lambda>w b x. (Inl (ErrorObj ''out of memory''),
                                      x\<lparr>clock := clock x + 9\<rparr>))\<rparr>"

definition wideImageEnv :: "world env" where
  "wideImageEnv = demoEnv\<lparr>sharpMetadata := (\<lambda>b x. (Inr \<lparr>width = Some 6000\<rparr>, x))\<rparr>"

definition corruptImageEnv :: "world env" where
  "corruptImageEnv =
     demoEnv\<lparr>sharpMetadata := (\<lambda>b x. (Inl (ErrorObj ''unsupported image format''), x))\<rparr>"

definition encoderFailsEnv :: "world env" where
  "encoderFailsEnv = demoEnv\<lparr>sharpToBuffer := (\<lambda>p x. (Inl OtherValue, x))\<rparr>"

definition noDatabaseEnv :: "world env" where
  "noDatabaseEnv = demoEnv\<lparr>DATABASE_URL := None\<rparr>"

section \<open>Facts about binary64 rounding\<close>

lemma pow2_powi: "pow2 e = 2 powi e"
  by (simp add: pow2_def power_int_def inverse_eq_divide power_one_over)

lemma pow2_pos: "0 < pow2 e"
  by (simp add: pow2_powi)

lemma pow2_add: "pow2 (a + b) = pow2 a * pow2 b"
  by (simp add: pow2_powi power_int_add)

lemma pow2_less: "a < b \<Longrightarrow> pow2 a < pow2 b"
  by (simp add: pow2_powi power_int_strict_increasing)

lemma pow2_le: "a \<le> b \<Longrightarrow> pow2 a \<le> pow2 b"
  by (simp add: pow2_powi power_int_increasing)

lemma pow2_less_cancel: "pow2 a < pow2 b \<Longrightarrow> a < b"
  using pow2_le [of b a] by (cases "a < b") auto

lemma pow2_of_nat: "pow2 (int j) = 2 ^ j"
  by (simp add: pow2_def)

lemma pow2_neg_nat: "pow2 (- int j) = 1 / 2 ^ j"
  by (cases j) (simp_all add: pow2_def nat_add_distrib)

lemma ilog2_lower:
  assumes "0 < a"
  shows "pow2 (ilog2 a) \<le> a"
proof (cases "1 \<le> a")
  case True
  define n where "n = \<lfloor>a\<rfloor>"
  have n1: "1 \<le> n" using True by (simp add: n_def)
  then have b1: "1 \<le> bitlen n" by (simp add: bitlen_ge_iff_power)
  from n1 have "2 ^ nat (bitlen n - 1) \<le> n" using bitlen_bounds [of n] by simp
  then have "(of_int (2 ^ nat (bitlen n - 1)) :: rat) \<le> of_int n" by (simp only: of_int_le_iff)
  also have "\<dots> \<le> a" by (simp add: n_def)
  finally have "2 ^ nat (bitlen n - 1) \<le> a" by simp
  moreover have "pow2 (bitlen n - 1) = 2 ^ nat (bitlen n - 1)" using b1 by (simp add: pow2_def)
  ultimately show ?thesis using True by (simp add: ilog2_def n_def)
next
  case False
  define c where "c = \<lceil>1 / a\<rceil>"
  define k where "k = bitlen (c - 1)"
  from False assms have "1 < 1 / a" by simp
  then have c2: "2 \<le> c" unfolding c_def by (simp add: le_ceiling_iff)
  then have "c - 1 < 2 ^ nat k" using bitlen_bounds [of "c - 1"] by (simp add: k_def)
  then have "c \<le> 2 ^ nat k" by simp
  then have "(of_int c :: rat) \<le> 2 ^ nat k" by simp
  moreover have "1 / a \<le> of_int c" by (simp add: c_def)
  ultimately have "1 / a \<le> 2 ^ nat k" by (rule order_trans [rotated])
  then have "1 / 2 ^ nat k \<le> a" using assms
    by (simp add: field_simps)
  moreover have "0 \<le> k" by (simp add: k_def bitlen_nonneg)
  then have "pow2 (- k) = 1 / 2 ^ nat k" using pow2_neg_nat [of "nat k"] by simp
  ultimately show ?thesis using False by (simp add: ilog2_def k_def c_def)
qed

lemma ilog2_upper:
  assumes "0 < a"
  shows "a < pow2 (ilog2 a + 1)"
proof (cases "1 \<le> a")
  case True
  define n where "n = \<lfloor>a\<rfloor>"
  have n1: "1 \<le> n" using True by (simp add: n_def)
  have b0: "0 \<le> bitlen n" by (simp add: bitlen_nonneg)
  from n1 have "n < 2 ^ nat (bitlen n)" using bitlen_bounds [of n] by simp
  then have "n + 1 \<le> 2 ^ nat (bitlen n)" by simp
  then have "(of_int (n + 1) :: rat) \<le> 2 ^ nat (bitlen n)"
    by (simp only: of_int_le_numeral_power_cancel_iff)
  moreover have "a < of_int (n + 1)" using floor_correct [of a] by (simp add: n_def)
  ultimately have "a < 2 ^ nat (bitlen n)" by (rule less_le_trans [rotated])
  moreover have "pow2 (bitlen n) = 2 ^ nat (bitlen n)" using b0 by (simp add: pow2_def)
  ultimately show ?thesis using True by (simp add: ilog2_def n_def)
next
  case False
  define c where "c = \<lceil>1 / a\<rceil>"
  define k where "k = bitlen (c - 1)"
  from False assms have "1 < 1 / a" by simp
  then have c2: "2 \<le> c" unfolding c_def by (simp add: le_ceiling_iff)
  then have k1: "1 \<le> k" by (simp add: k_def bitlen_ge_iff_power)
  from c2 have "2 ^ nat (k - 1) \<le> c - 1" using bitlen_bounds [of "c - 1"] by (simp add: k_def)
  then have "2 ^ nat (k - 1) < c" by simp
  then have "(of_int (2 ^ nat (k - 1)) :: rat) < 1 / a" unfolding c_def by (simp only: less_ceiling_iff)
  then have "2 ^ nat (k - 1) < 1 / a" by simp
  then have "a < 1 / 2 ^ nat (k - 1)" using assms
    by (simp add: field_simps)
  moreover have "pow2 (- k + 1) = 1 / 2 ^ nat (k - 1)"
    using k1 pow2_neg_nat [of "nat (k - 1)"] by simp
  ultimately show ?thesis using False by (simp add: ilog2_def k_def c_def)
qed

lemma ilog2_unique:
  assumes "0 < a" and "pow2 k \<le> a" and "a < pow2 (k + 1)"
  shows "ilog2 a = k"
proof -
  from ilog2_lower [OF assms(1)] assms(3) have "pow2 (ilog2 a) < pow2 (k + 1)" by simp
  then have "ilog2 a < k + 1" by (rule pow2_less_cancel)
  moreover from ilog2_upper [OF assms(1)] assms(2) have "pow2 k < pow2 (ilog2 a + 1)" by simp
  then have "k < ilog2 a + 1" by (rule pow2_less_cancel)
  ultimately show ?thesis by simp
qed

lemma roundHalfEven_of_int: "roundHalfEven (of_int n) = n"
  by (simp add: roundHalfEven_def)

lemma roundHalfEven_le:
  assumes "x \<le> of_int n"
  shows "roundHalfEven x \<le> n"
proof (cases "x = of_int n")
  case True
  then show ?thesis by (simp add: roundHalfEven_of_int)
next
  case False
  with assms have "x < of_int n" by simp
  then have "\<lfloor>x\<rfloor> < n" by (simp add: floor_less_iff)
  then show ?thesis by (simp add: roundHalfEven_def Let_def)
qed

lemma roundHalfEven_ge:
  assumes "of_int n \<le> x"
  shows "n \<le> roundHalfEven x"
proof -
  from assms have "n \<le> \<lfloor>x\<rfloor>" by (simp add: le_floor_iff)
  then show ?thesis by (simp add: roundHalfEven_def Let_def)
qed

text \<open>\<open>toDouble\<close> with the exponent and the significand supplied.\<close>

lemma toDouble_pos_eval:
  assumes "0 < x" and "pow2 k \<le> x" and "x < pow2 (k + 1)"
  shows "toDouble x =
     (let e = max (k - 52) (- 1074);
          r = of_int (roundHalfEven (x / pow2 e)) * pow2 e
      in if pow2 1024 \<le> r then PosInfinity else Num r)"
  using assms ilog2_unique [OF assms] by (simp add: toDouble_def Let_def)

text \<open>Every binary64 value (an integer below \<open>2\<^sup>5\<^sup>3\<close> in magnitude times a power of two in
  range) is rounded to itself.\<close>

lemma toDouble_exact:
  assumes n: "\<bar>n\<bar> < 2 ^ 53" and k: "- 1074 \<le> k" "k \<le> 971"
  shows "toDouble (of_int n * pow2 k) = Num (of_int n * pow2 k)"
proof (cases "n = 0")
  case True
  then show ?thesis by (simp add: toDouble_def)
next
  case False
  define a where "a = \<bar>of_int n * pow2 k\<bar>"
  define e where "e = max (ilog2 a - 52) (- 1074)"
  have a_eq: "a = of_int \<bar>n\<bar> * pow2 k"
    using pow2_pos [of k] by (simp add: a_def abs_mult)
  have a_pos: "0 < a" using False pow2_pos [of k] by (simp add: a_eq)
  have "of_int \<bar>n\<bar> < (2::rat) ^ 53" using n by (simp only: of_int_less_numeral_power_cancel_iff)
  then have "a < pow2 53 * pow2 k"
    using pow2_pos [of k] by (simp add: a_eq pow2_def)
  then have "a < pow2 (53 + k)" by (simp add: pow2_add)
  with ilog2_lower [OF a_pos] have "pow2 (ilog2 a) < pow2 (53 + k)" by simp
  then have "ilog2 a < 53 + k" by (rule pow2_less_cancel)
  with k have e_le: "e \<le> k" by (simp add: e_def)
  define j where "j = nat (k - e)"
  have kj: "k = e + int j" using e_le by (simp add: j_def)
  have quot: "a / pow2 e = of_int (\<bar>n\<bar> * 2 ^ j)"
    using pow2_pos [of e] by (simp add: a_eq kj pow2_add pow2_of_nat)
  have m: "roundHalfEven (a / pow2 e) = \<bar>n\<bar> * 2 ^ j"
    unfolding quot by (rule roundHalfEven_of_int)
  have r: "of_int (roundHalfEven (a / pow2 e)) * pow2 e = a"
    unfolding m by (simp add: a_eq kj pow2_add pow2_of_nat)
  have "a < pow2 53 * pow2 971"
  proof -
    have "of_int \<bar>n\<bar> * pow2 k \<le> of_int \<bar>n\<bar> * pow2 971"
      using pow2_le [OF k(2)] by (simp add: mult_left_mono)
    also have "\<dots> < pow2 53 * pow2 971"
      using \<open>of_int \<bar>n\<bar> < (2::rat) ^ 53\<close> pow2_pos [of 971] by (simp add: pow2_def)
    finally show ?thesis by (simp add: a_eq)
  qed
  then have small: "a < pow2 1024" using pow2_add [of 53 971] by simp
  have x0: "of_int n * pow2 k \<noteq> 0" using False pow2_pos [of k] by simp
  have sgn: "(if 0 < of_int n * pow2 k then a else - a) = of_int n * pow2 k"
    by (simp add: a_def)
  from small have small': "\<not> pow2 1024 \<le> a" by simp
  have "toDouble (of_int n * pow2 k) = Num (if 0 < of_int n * pow2 k then a else - a)"
    unfolding toDouble_def Let_def a_def [symmetric] e_def [symmetric] r
    using x0 small' by (simp only: if_False)
  then show ?thesis by (simp only: sgn)
qed

lemma toDouble_of_int:
  assumes "\<bar>n\<bar> < 2 ^ 53"
  shows "toDouble (of_int n) = Num (of_int n)"
  using toDouble_exact [OF assms, of 0] by (simp add: pow2_def)

text \<open>Rounding does not leave an interval \<open>[0, N]\<close> whose end is an integer below
  \<open>2\<^sup>5\<^sup>3\<close>.\<close>

lemma toDouble_bounded:
  assumes "0 \<le> y" and "y \<le> of_int N" and "N < 2 ^ 53"
  shows "\<exists>r. toDouble y = Num r \<and> 0 \<le> r \<and> r \<le> of_int N"
proof (cases "y = 0")
  case True
  then show ?thesis using assms by (simp add: toDouble_def)
next
  case False
  with assms have y_pos: "0 < y" by simp
  define e where "e = max (ilog2 y - 52) (- 1074)"
  define m where "m = roundHalfEven (y / pow2 e)"
  have "(of_int N :: rat) < 2 ^ 53" using assms(3) by (simp only: of_int_less_numeral_power_cancel_iff)
  then have "y < pow2 53" using assms(2) by (simp add: pow2_def)
  with ilog2_lower [OF y_pos] have "pow2 (ilog2 y) < pow2 53" by simp
  then have "ilog2 y < 53" by (rule pow2_less_cancel)
  then have e_le: "e \<le> 0" by (simp add: e_def)
  define j where "j = nat (- e)"
  have ej: "e = - int j" using e_le by (simp add: j_def)
  have pe: "pow2 e = 1 / 2 ^ j" unfolding ej by (rule pow2_neg_nat)
  have "y / pow2 e \<le> of_int (N * 2 ^ j)"
    using assms(2) by (simp add: pe mult_right_mono)
  then have m_le: "m \<le> N * 2 ^ j" unfolding m_def by (rule roundHalfEven_le)
  have "of_int 0 \<le> y / pow2 e" using y_pos pow2_pos [of e] by simp
  then have m_ge: "0 \<le> m" unfolding m_def by (rule roundHalfEven_ge)
  define r where "r = of_int m * pow2 e"
  have r_ge: "0 \<le> r" using m_ge pow2_pos [of e] by (simp add: r_def)
  have "of_int m \<le> (of_int (N * 2 ^ j) :: rat)" using m_le by (simp only: of_int_le_iff)
  then have r_le: "r \<le> of_int N" by (simp add: r_def pe field_simps)
  have "r < pow2 1024"
    using r_le \<open>(of_int N :: rat) < 2 ^ 53\<close> by (simp add: pow2_def)
  then have small: "\<not> pow2 1024 \<le> r" by simp
  have abs_y: "\<bar>y\<bar> = y" using y_pos by simp
  have "toDouble y = Num r"
    unfolding toDouble_def Let_def abs_y e_def [symmetric] m_def [symmetric] r_def [symmetric]
    using y_pos False small by (simp only: if_False if_True)
  with r_ge r_le show ?thesis by blast
qed

lemma roundHalfEven_eval:
  assumes "of_int m - 1 / 2 < x" and "x < of_int m + 1 / 2"
  shows "roundHalfEven x = m"
proof (cases "of_int m \<le> x")
  case True
  with assms(2) have "\<lfloor>x\<rfloor> = m" by (intro floor_unique) simp_all
  with assms(2) show ?thesis by (simp add: roundHalfEven_def Let_def)
next
  case False
  with assms(1) have "\<lfloor>x\<rfloor> = m - 1" by (intro floor_unique) simp_all
  with assms(1) False show ?thesis by (simp add: roundHalfEven_def Let_def)
qed

lemma toDouble_eval:
  assumes "0 < x" and "pow2 k \<le> x" and "x < pow2 (k + 1)"
    and "e = max (k - 52) (- 1074)"
    and "of_int m - 1 / 2 < x / pow2 e" and "x / pow2 e < of_int m + 1 / 2"
    and "of_int m * pow2 e < pow2 1024"
  shows "toDouble x = Num (of_int m * pow2 e)"
proof -
  have "roundHalfEven (x / pow2 e) = m"
    using assms(5,6) by (rule roundHalfEven_eval)
  with assms(4,7) show ?thesis
    by (simp add: toDouble_pos_eval [OF assms(1-3)] Let_def)
qed

lemma floor_half: "\<lfloor>(1 / 2 :: rat)\<rfloor> = 0"
  by (rule floor_unique) simp_all

lemma floor_101_2: "\<lfloor>(101 / 2 :: rat)\<rfloor> = 50"
  by (rule floor_unique) simp_all

lemma toDouble_50: "toDouble 50 = Num 50"
  using toDouble_of_int [of 50] by simp

text \<open>The percentage \<^verbatim>\<open>Math.round((confidence || 0) * 100)\<close>.\<close>

lemma percentage_of_zero: "mathRound (jsTimes (numOr (Some (Num 0)) (Num 0)) 100) = Num 0"
  by (simp add: numOr_def toDouble_def floor_half)

lemma percentage_of_none: "mathRound (jsTimes (numOr None (Num 0)) 100) = Num 0"
  by (simp add: numOr_def toDouble_def floor_half)

lemma double_0_876: "toDouble (876 / 1000) = Num (7890306547153109 / 2 ^ 53)"
  using toDouble_eval [of "876 / 1000" "- 1" "- 53" 7890306547153109]
  by (simp add: pow2_def)

lemma double_0_876_times_100:
  "toDouble (7890306547153109 / 2 ^ 53 * 100) = Num (3082150994981683 / 2 ^ 45)"
  using toDouble_eval [of "7890306547153109 / 2 ^ 53 * 100" 6 "- 46" 6164301989963366]
  by (simp add: pow2_def)

lemma percentage_of_0_876:
  "mathRound (jsTimes (numOr (Some (toDouble (876 / 1000))) (Num 0)) 100) = Num 88"
proof -
  have "\<lfloor>(3082150994981683 / 2 ^ 45 + 1 / 2 :: rat)\<rfloor> = 88"
    by (rule floor_unique) simp_all
  moreover have "numOr (Some (Num (7890306547153109 / 2 ^ 53))) (Num 0)
      = Num (7890306547153109 / 2 ^ 53)"
    by (simp add: numOr_def)
  ultimately show ?thesis
    by (simp only: double_0_876 double_0_876_times_100 jsTimes.simps mathRound.simps) simp
qed

text \<open>The product is rounded to binary64 before \<^verbatim>\<open>Math.round\<close> sees it: the binary64 value of
  \<open>0.045\<close> lies below \<open>0.045\<close>, its product with 100 rounds to \<open>4.5\<close>, and the percentage
  is 5.\<close>

lemma double_0_045: "toDouble (45 / 1000) = Num (6485183463413514 / 2 ^ 57)"
  using toDouble_eval [of "45 / 1000" "- 5" "- 57" 6485183463413514]
  by (simp add: pow2_def)

lemma double_0_045_times_100:
  "toDouble (6485183463413514 / 2 ^ 57 * 100) = Num (9 / 2)"
  using toDouble_eval [of "6485183463413514 / 2 ^ 57 * 100" 2 "- 50" 5066549580791808]
  by (simp add: pow2_def)

lemma percentage_of_0_045:
  "mathRound (jsTimes (toDouble (45 / 1000)) 100) = Num 5"
  by (simp only: double_0_045 double_0_045_times_100 jsTimes.simps mathRound.simps) simp

text \<open>An engine confidence in \<open>[0, 1]\<close> gives a whole percentage in \<open>[0, 100]\<close>.\<close>

lemma confidence_percentage:
  assumes "0 \<le> c" and "c \<le> 1"
  shows "\<exists>k. mathRound (jsTimes (numOr (Some (Num c)) (Num 0)) 100) = Num (of_int k)
            \<and> 0 \<le> k \<and> k \<le> 100"
proof -
  have n: "numOr (Some (Num c)) (Num 0) = Num c" by (simp add: numOr_def)
  from assms have "0 \<le> c * 100" and "c * 100 \<le> of_int 100" by simp_all
  from toDouble_bounded [OF this]
  obtain r where r: "toDouble (c * 100) = Num r" "0 \<le> r" "r \<le> 100" by auto
  have "0 \<le> \<lfloor>r + 1 / 2\<rfloor>" using r(2) by simp
  moreover have "\<lfloor>r + 1 / 2\<rfloor> \<le> 100" using r(3) by (simp add: floor_le_iff)
  ultimately show ?thesis by (simp add: n r(1))
qed

lemma defaultMaxSizeBytes_eq: "defaultMaxSizeBytes = Num 10485760"
proof -
  have "toDouble (10 * 1024) = Num 10240"
    using toDouble_of_int [of 10240] by simp
  moreover have "toDouble (10240 * 1024) = Num 10485760"
    using toDouble_of_int [of 10485760] by simp
  ultimately show ?thesis by (simp add: defaultMaxSizeBytes_def)
qed

lemma megabytes_of_int:
  assumes "0 \<le> n" and "n < 2 ^ 53"
  shows "jsOver (jsOver (Num (of_int n)) 1024) 1024 = Num (of_int n / (1024 * 1024))"
proof -
  from assms have n: "\<bar>n\<bar> < 2 ^ 53" by simp
  have "toDouble (of_int n / 1024) = Num (of_int n / 1024)"
    using toDouble_exact [OF n, of "- 10"] by (simp add: pow2_def)
  moreover have "toDouble (of_int n / 1024 / 1024) = Num (of_int n / (1024 * 1024))"
    using toDouble_exact [OF n, of "- 20"] by (simp add: pow2_def)
  ultimately show ?thesis by simp
qed

section \<open>The functions, step by step\<close>

lemma optimizeImage_cases:
  "optimizeImage env imageBuffer s =
     (case sharpMetadata env imageBuffer (ext s) of
        (Inl e, x) \<Rightarrow> (Inr imageBuffer, s\<lparr>ext := x\<rparr>)
      | (Inr m, x) \<Rightarrow>
          (case sharpToBuffer env
                  \<lparr>source = imageBuffer,
                   resizing = (if tooWide m
                               then Some \<lparr>toWidth = 4000, toHeight = 4000, fit = ''inside'',
                                          withoutEnlargement = True\<rparr>
                               else None),
                   toGrayscale = True\<rparr> x of
             (Inl e, x') \<Rightarrow> (Inr imageBuffer, s\<lparr>ext := x'\<rparr>)
           | (Inr b, x') \<Rightarrow> (Inr b, s\<lparr>ext := x'\<rparr>)))"
  by (simp add: optimizeImage_def tryCatch_def andThen_def external_def ret_def Let_def
        sharp_def resize_def grayscale_def split: prod.splits sum.splits)

lemma optimizeImage_returns:
  "\<exists>b x. optimizeImage env imageBuffer s = (Inr b, s\<lparr>ext := x\<rparr>)"
  unfolding optimizeImage_cases by (auto split: prod.splits sum.splits)

lemma getOcrWorker_cases:
  "getOcrWorker env s =
     (case ocrWorker s of
        Some w \<Rightarrow> (Inr w, s)
      | None \<Rightarrow>
          (case createWorker env ''eng'' (ext s) of
             (Inl e, x) \<Rightarrow> (Inl (ErrorObj ''Failed to initialize OCR worker''), s\<lparr>ext := x\<rparr>)
           | (Inr w, x) \<Rightarrow> (Inr w, s\<lparr>ext := x, ocrWorker := Some w\<rparr>)))"
  by (simp add: getOcrWorker_def tryCatch_def andThen_def external_def ret_def throw_def
        setOcrWorker_def split: option.splits prod.splits sum.splits)

lemma getOcrWorker_segments:
  "getOcrWorker env s = (case getOcrWorker_begin env s of (p, s') \<Rightarrow> getOcrWorker_resume p s')"
  by (simp add: getOcrWorker_cases getOcrWorker_begin_def getOcrWorker_resume_def
        split: option.splits prod.splits sum.splits)

lemma getOcrWorker_keeps:
  "ocrWorker s = Some w \<Longrightarrow> getOcrWorker env s = (Inr w, s)"
  by (simp add: getOcrWorker_cases)

lemma processImageWithOcr_unfold:
  assumes "dateNow env (ext s) = (t0, x0)"
    and "optimizeImage env imageBuffer (s\<lparr>ext := x0\<rparr>) = (Inr optimized, s1)"
  shows "processImageWithOcr env imageBuffer lang s =
     (case getOcrWorker env s1 of
        (Inl e, s2) \<Rightarrow>
          (case dateNow env (ext s2) of (t1, x) \<Rightarrow>
             (Inr \<lparr>o_text = [], o_confidence = Num 0, o_language = lang,
                   o_processingTimeMs = t1 - t0, o_success = False,
                   o_error = Some (errorMessage e ''Unknown error'')\<rparr>, s2\<lparr>ext := x\<rparr>))
      | (Inr w, s2) \<Rightarrow>
          (case recognize env w optimized (ext s2) of
             (Inl e, x3) \<Rightarrow>
               (case dateNow env x3 of (t1, x) \<Rightarrow>
                  (Inr \<lparr>o_text = [], o_confidence = Num 0, o_language = lang,
                        o_processingTimeMs = t1 - t0, o_success = False,
                        o_error = Some (errorMessage e ''Unknown error'')\<rparr>, s2\<lparr>ext := x\<rparr>))
           | (Inr result, x3) \<Rightarrow>
               (case dateNow env x3 of (t1, x) \<Rightarrow>
                  (Inr \<lparr>o_text = strOr (dataText result) [],
                        o_confidence = mathRound (jsTimes (numOr (dataConfidence result) (Num 0)) 100),
                        o_language = lang,
                        o_processingTimeMs = t1 - t0, o_success = True,
                        o_error = None\<rparr>, s2\<lparr>ext := x\<rparr>))))"
  using assms
  by (simp add: processImageWithOcr_def andThen_def tryCatch_def externalTotal_def
        external_def ret_def split: prod.splits sum.splits)

lemma processImageWithOcr_keeps_worker:
  assumes "ocrWorker s = Some w"
  shows "ocrWorker (snd (processImageWithOcr env b l s)) = Some w"
proof -
  obtain t0 x0 where t: "dateNow env (ext s) = (t0, x0)" by (cases "dateNow env (ext s)")
  obtain ob x1 where o: "optimizeImage env b (s\<lparr>ext := x0\<rparr>) = (Inr ob, s\<lparr>ext := x0\<rparr>\<lparr>ext := x1\<rparr>)"
    using optimizeImage_returns [of env b "s\<lparr>ext := x0\<rparr>"] by blast
  have g: "getOcrWorker env (s\<lparr>ext := x1\<rparr>) = (Inr w, s\<lparr>ext := x1\<rparr>)"
    using assms by (simp add: getOcrWorker_cases)
  from assms t o g show ?thesis
    by (simp add: processImageWithOcr_def andThen_def tryCatch_def externalTotal_def
          external_def ret_def split: prod.splits sum.splits)
qed

lemma processImageWithOcr_keeps_db:
  "db_handle (snd (processImageWithOcr env b l s)) = db_handle s"
proof -
  obtain t0 x0 where t: "dateNow env (ext s) = (t0, x0)" by (cases "dateNow env (ext s)")
  obtain ob x1 where o: "optimizeImage env b (s\<lparr>ext := x0\<rparr>) = (Inr ob, s\<lparr>ext := x0\<rparr>\<lparr>ext := x1\<rparr>)"
    using optimizeImage_returns [of env b "s\<lparr>ext := x0\<rparr>"] by blast
  show ?thesis
    by (simp add: processImageWithOcr_unfold [OF t o] getOcrWorker_cases
          split: prod.splits sum.splits option.splits) auto
qed

lemma getDb_returns: "\<exists>h. getDb env s = (Inr h, s\<lparr>db_handle := h\<rparr>)"
  by (auto simp: getDb_def split: sum.splits)

lemma getDb_unavailable:
  "storeUnavailable env s \<longleftrightarrow> fst (getDb env s) = Inr None"
  by (auto simp: getDb_def storeUnavailable_def split: sum.splits)

lemma getDb_unavailable_state:
  "storeUnavailable env s \<Longrightarrow> getDb env s = (Inr None, s)"
  by (auto simp: getDb_def storeUnavailable_def split: sum.splits)

lemma storeUnavailable_ext [simp]:
  "storeUnavailable env (s\<lparr>ext := x\<rparr>) = storeUnavailable env s"
  by (simp add: storeUnavailable_def)

lemma storeUnavailable_after_ocr:
  assumes "storeUnavailable env s" and "processImageWithOcr env b l s = (r, s1)"
  shows "storeUnavailable env s1"
  using assms processImageWithOcr_keeps_db [of env b l s]
  by (simp add: storeUnavailable_def)

lemma saveOcrResult_unavailable:
  "storeUnavailable env s \<Longrightarrow> saveOcrResult env r s = (Inr None, s)"
  by (simp add: saveOcrResult_def andThen_def getDb_unavailable_state ret_def)

lemma deleteOcrResult_cases:
  "deleteOcrResult env idArg userIdArg s =
     (case getDb env s of
        (Inl e, s1) \<Rightarrow> (Inl e, s1)
      | (Inr None, s1) \<Rightarrow> (Inr False, s1)
      | (Inr (Some h), s1) \<Rightarrow>
          (case execute env (DeleteOcrResult idArg userIdArg) (ext s1) of
             (Inl e, x) \<Rightarrow> (Inl e, s1\<lparr>ext := x\<rparr>)
           | (Inr u, x) \<Rightarrow>
               (Inr True,
                s1\<lparr>ext := x,
                   ocrResults := filter (\<lambda>row. \<not> (rowId row = idArg \<and> userId row = userIdArg))
                                   (ocrResults s1)\<rparr>)))"
  by (simp add: deleteOcrResult_def deleteWhere_def andThen_def tryCatch_def external_def
        ret_def throw_def split: prod.splits sum.splits option.splits)

lemma deleteOcrResult_table:
  "ocrResults (snd (deleteOcrResult env idArg userIdArg s)) = ocrResults s
   \<or> ocrResults (snd (deleteOcrResult env idArg userIdArg s))
        = filter (\<lambda>row. \<not> (rowId row = idArg \<and> userId row = userIdArg)) (ocrResults s)"
  using getDb_returns [of env s]
  by (auto simp: deleteOcrResult_cases split: prod.splits sum.splits option.splits)

lemma batchItem_cases:
  "batchItem env u img (rs, es) s =
     (let buf = base64Decode env (i_imageData img);
          v = validateImageFile (numberToString env) buf (i_mimeType img) None;
          entry = (\<lambda>message. \<lparr>e_fileName = i_fileName img, e_error = message\<rparr>)
      in if \<not> valid v then (Inr (rs, es @ [entry (strOr (v_error v) ''Invalid image'')]), s)
         else
           (case processImageWithOcr env buf (i_language img) s of
              (Inl e, sa) \<Rightarrow> (Inr (rs, es @ [entry (errorMessage e ''Unknown error'')]), sa)
            | (Inr ocr, sa) \<Rightarrow>
                if \<not> o_success ocr
                then (Inr (rs, es @ [entry (strOr (o_error ocr) ''OCR processing failed'')]), sa)
                else
                  (case nanoid env (ext sa) of (token, xb) \<Rightarrow>
                     (case storagePut env (fileKeyOf env u token (i_fileName img)) buf
                             (i_mimeType img) xb of
                        (Inl e, xc) \<Rightarrow>
                          (Inr (rs, es @ [entry (errorMessage e ''Unknown error'')]), sa\<lparr>ext := xc\<rparr>)
                      | (Inr url, xc) \<Rightarrow>
                          (case saveOcrResult env
                                  \<lparr>userId = u, imageFileName = i_fileName img, imageUrl = url,
                                   extractedText = o_text ocr, confidence = o_confidence ocr,
                                   language = i_language img,
                                   processingTimeMs = o_processingTimeMs ocr\<rparr>
                                  (sa\<lparr>ext := xc\<rparr>) of
                             (Inl e, sd) \<Rightarrow>
                               (Inr (rs, es @ [entry (errorMessage e ''Unknown error'')]), sd)
                           | (Inr saved, sd) \<Rightarrow>
                               (Inr (rs @ [\<lparr>r_fileName = i_fileName img, r_text = o_text ocr,
                                             r_confidence = o_confidence ocr,
                                             r_processingTimeMs = o_processingTimeMs ocr,
                                             r_imageUrl = url, r_success = True\<rparr>], es), sd))))))"
  by (simp add: batchItem_def tryCatch_def andThen_def ret_def Let_def externalTotal_def
        external_def split: prod.splits sum.splits)

lemmas run_simps =
  processImageWithOcr_def optimizeImage_cases getOcrWorker_cases batchItem_cases
  processBatch_def processImage_def saveOcrResult_def insertValues_def getDb_def
  deleteOcrResult_cases deleteResult_def
  andThen_def tryCatch_def ret_def throw_def external_def externalTotal_def
  validateImageFile_def defaultMaxSizeBytes_eq paramOr_def allowedMimeTypes_def
  fileKeyOf_def tooWide_def numOr_def strOr_def errorMessage_def Let_def
  toDouble_50 floor_101_2 storeUnavailable_def
  demoEnv_def demoState_def demoImage_def demoToBuffer_def demoNumberToString_def
  flakyEnv_def demoBatch_def demoRow_def demoStore_def
  engineDownEnv_def recognitionFailsEnv_def wideImageEnv_def corruptImageEnv_def
  encoderFailsEnv_def noDatabaseEnv_def

section \<open>Validation policy\<close>

text \<open>
  C3. \<^verbatim>\<open>validateImageFile\<close> is a function of its arguments alone (it reads and writes no
  state). When the byte length exceeds the limit (the argument \<^verbatim>\<open>maxSizeBytes\<close>, or
  \<^verbatim>\<open>10 * 1024 * 1024\<close> when it is omitted) the result is \<^verbatim>\<open>valid = false\<close> with the message
  \<^verbatim>\<open>File size exceeds maximum of <limit / 1024 / 1024>MB\<close>; for a limit of \<open>n\<close> bytes the
  number printed is \<open>n / 1048576\<close>, which is \<open>10\<close> for the default. When the MIME type is
  not one of \<^verbatim>\<open>image/jpeg\<close>, \<^verbatim>\<open>image/png\<close>, \<^verbatim>\<open>image/webp\<close>, \<^verbatim>\<open>image/tiff\<close> the result is
  \<^verbatim>\<open>valid = false\<close> whatever the size. When the length is at most the limit and the MIME
  type is in the list the result is \<^verbatim>\<open>valid = true\<close> with no error.
\<close>

theorem validateImageFile_policy:
  "(jsGreater (of_nat (length buffer)) (paramOr maxSizeArg defaultMaxSizeBytes) \<longrightarrow>
      validateImageFile toStr buffer mimeType maxSizeArg =
        \<lparr>valid = False,
         v_error = Some (''File size exceeds maximum of ''
           @ toStr (jsOver (jsOver (paramOr maxSizeArg defaultMaxSizeBytes) 1024) 1024)
           @ ''MB'')\<rparr>)
   \<and> (mimeType \<notin> {''image/jpeg'', ''image/png'', ''image/webp'', ''image/tiff''} \<longrightarrow>
      \<not> valid (validateImageFile toStr buffer mimeType maxSizeArg))
   \<and> (jsLessEq (of_nat (length buffer)) (paramOr maxSizeArg defaultMaxSizeBytes)
        \<and> mimeType \<in> {''image/jpeg'', ''image/png'', ''image/webp'', ''image/tiff''} \<longrightarrow>
      validateImageFile toStr buffer mimeType maxSizeArg = \<lparr>valid = True, v_error = None\<rparr>)
   \<and> paramOr None defaultMaxSizeBytes = Num (10 * 1024 * 1024)
   \<and> (0 \<le> n \<and> n < 2 ^ 53 \<longrightarrow>
      jsOver (jsOver (Num (of_int n)) 1024) 1024 = Num (of_int n / (1024 * 1024)))"
proof (intro conjI impI)
  assume "jsGreater (of_nat (length buffer)) (paramOr maxSizeArg defaultMaxSizeBytes)"
  then show "validateImageFile toStr buffer mimeType maxSizeArg =
        \<lparr>valid = False,
         v_error = Some (''File size exceeds maximum of ''
           @ toStr (jsOver (jsOver (paramOr maxSizeArg defaultMaxSizeBytes) 1024) 1024)
           @ ''MB'')\<rparr>"
    by (simp add: validateImageFile_def Let_def)
next
  assume "mimeType \<notin> {''image/jpeg'', ''image/png'', ''image/webp'', ''image/tiff''}"
  then have "mimeType \<notin> set allowedMimeTypes" by (simp add: allowedMimeTypes_def)
  then show "\<not> valid (validateImageFile toStr buffer mimeType maxSizeArg)"
    by (simp add: validateImageFile_def Let_def)
next
  assume a: "jsLessEq (of_nat (length buffer)) (paramOr maxSizeArg defaultMaxSizeBytes)
        \<and> mimeType \<in> {''image/jpeg'', ''image/png'', ''image/webp'', ''image/tiff''}"
  then have "\<not> jsGreater (of_nat (length buffer)) (paramOr maxSizeArg defaultMaxSizeBytes)"
    by (cases "paramOr maxSizeArg defaultMaxSizeBytes") simp_all
  moreover from a have "mimeType \<in> set allowedMimeTypes" by (simp add: allowedMimeTypes_def)
  ultimately show "validateImageFile toStr buffer mimeType maxSizeArg = \<lparr>valid = True, v_error = None\<rparr>"
    by (simp add: validateImageFile_def Let_def)
next
  show "paramOr None defaultMaxSizeBytes = Num (10 * 1024 * 1024)"
    by (simp add: paramOr_def defaultMaxSizeBytes_eq)
next
  assume "0 \<le> n \<and> n < 2 ^ 53"
  then show "jsOver (jsOver (Num (of_int n)) 1024) 1024 = Num (of_int n / (1024 * 1024))"
    using megabytes_of_int [of n] by simp
qed

theorem validateImageFile_policy_witness:
  "validateImageFile demoNumberToString (replicate 10485761 0) ''image/jpeg'' None =
     \<lparr>valid = False, v_error = Some ''File size exceeds maximum of 10MB''\<rparr>
   \<and> validateImageFile demoNumberToString [1, 2, 3] ''application/pdf'' None =
     \<lparr>valid = False,
      v_error = Some ''Unsupported image format. Allowed: image/jpeg, image/png, image/webp, image/tiff''\<rparr>
   \<and> validateImageFile demoNumberToString [1, 2, 3] ''image/png'' None =
     \<lparr>valid = True, v_error = None\<rparr>
   \<and> jsOver (jsOver (Num 10485760) 1024) 1024 = Num 10"
  using
    validateImageFile_policy [where buffer = "replicate 10485761 0" and maxSizeArg = None
      and toStr = demoNumberToString and mimeType = "''image/jpeg''" and n = 10485760]
    validateImageFile_policy [where buffer = "[1, 2, 3]" and maxSizeArg = None
      and toStr = demoNumberToString and mimeType = "''application/pdf''" and n = 10485760]
    validateImageFile_policy [where buffer = "[1, 2, 3]" and maxSizeArg = None
      and toStr = demoNumberToString and mimeType = "''image/png''" and n = 10485760]
  by (simp add: paramOr_def defaultMaxSizeBytes_eq demoNumberToString_def
        validateImageFile_def allowedMimeTypes_def)

section \<open>Optimization is best effort\<close>

text \<open>
  C6. \<^verbatim>\<open>optimizeImage\<close> never raises: for every input, state and collaborators it returns
  bytes. When reading the metadata throws it returns the input bytes. Otherwise it asks
  the image library for the input converted to grayscale, and resized to fit inside
  4000 by 4000 without enlargement exactly when the reported width exceeds 4000; it
  returns what the library produces, or the input bytes when the library throws.
\<close>

theorem optimizeImage_never_raises:
  "(\<exists>b x. optimizeImage env imageBuffer s = (Inr b, s\<lparr>ext := x\<rparr>))
   \<and> (sharpMetadata env imageBuffer (ext s) = (Inl e, x1) \<longrightarrow>
        optimizeImage env imageBuffer s = (Inr imageBuffer, s\<lparr>ext := x1\<rparr>))
   \<and> (sharpMetadata env imageBuffer (ext s) = (Inr m, x1)
        \<and> sharpToBuffer env
             \<lparr>source = imageBuffer,
              resizing = (case width m of
                            None \<Rightarrow> None
                          | Some w \<Rightarrow>
                              if 4000 < w
                              then Some \<lparr>toWidth = 4000, toHeight = 4000, fit = ''inside'',
                                         withoutEnlargement = True\<rparr>
                              else None),
              toGrayscale = True\<rparr> x1 = (r, x2) \<longrightarrow>
        optimizeImage env imageBuffer s =
          (Inr (case r of Inl e \<Rightarrow> imageBuffer | Inr transformed \<Rightarrow> transformed),
           s\<lparr>ext := x2\<rparr>))"
proof (intro conjI impI)
  show "\<exists>b x. optimizeImage env imageBuffer s = (Inr b, s\<lparr>ext := x\<rparr>)"
    by (rule optimizeImage_returns)
next
  assume "sharpMetadata env imageBuffer (ext s) = (Inl e, x1)"
  then show "optimizeImage env imageBuffer s = (Inr imageBuffer, s\<lparr>ext := x1\<rparr>)"
    by (simp add: optimizeImage_cases)
next
  assume a: "sharpMetadata env imageBuffer (ext s) = (Inr m, x1)
        \<and> sharpToBuffer env
             \<lparr>source = imageBuffer,
              resizing = (case width m of
                            None \<Rightarrow> None
                          | Some w \<Rightarrow>
                              if 4000 < w
                              then Some \<lparr>toWidth = 4000, toHeight = 4000, fit = ''inside'',
                                         withoutEnlargement = True\<rparr>
                              else None),
              toGrayscale = True\<rparr> x1 = (r, x2)"
  have "(case width m of None \<Rightarrow> None
         | Some w \<Rightarrow> if 4000 < w
             then Some \<lparr>toWidth = 4000, toHeight = 4000, fit = ''inside'',
                        withoutEnlargement = True\<rparr>
             else None)
        = (if tooWide m
           then Some \<lparr>toWidth = 4000, toHeight = 4000, fit = ''inside'',
                      withoutEnlargement = True\<rparr>
           else None)"
    by (auto simp: tooWide_def split: option.splits)
  with a show "optimizeImage env imageBuffer s =
          (Inr (case r of Inl e \<Rightarrow> imageBuffer | Inr transformed \<Rightarrow> transformed),
           s\<lparr>ext := x2\<rparr>)"
    by (simp add: optimizeImage_cases split: sum.splits)
qed

theorem optimizeImage_never_raises_witness:
  "optimizeImage demoEnv [7] demoState = (Inr [1, 0, 7], demoState)
   \<and> optimizeImage wideImageEnv [7] demoState = (Inr [1, 1, 7], demoState)
   \<and> optimizeImage corruptImageEnv [7] demoState = (Inr [7], demoState)
   \<and> optimizeImage encoderFailsEnv [7] demoState = (Inr [7], demoState)"
  using
    optimizeImage_never_raises [where env = demoEnv and imageBuffer = "[7]" and s = demoState
      and m = "\<lparr>width = Some 100\<rparr>" and ?x1.0 = "ext demoState"
      and r = "Inr [1, 0, 7]" and ?x2.0 = "ext demoState"]
    optimizeImage_never_raises [where env = wideImageEnv
      and imageBuffer = "[7]" and s = demoState
      and m = "\<lparr>width = Some 6000\<rparr>" and ?x1.0 = "ext demoState"
      and r = "Inr [1, 1, 7]" and ?x2.0 = "ext demoState"]
    optimizeImage_never_raises [where env = corruptImageEnv
      and imageBuffer = "[7]" and s = demoState
      and e = "ErrorObj ''unsupported image format''" and ?x1.0 = "ext demoState"]
    optimizeImage_never_raises [where env = encoderFailsEnv
      and imageBuffer = "[7]" and s = demoState
      and m = "\<lparr>width = Some 100\<rparr>" and ?x1.0 = "ext demoState"
      and r = "Inl OtherValue" and ?x2.0 = "ext demoState"]
  by (simp add: demoEnv_def demoState_def demoToBuffer_def wideImageEnv_def
        corruptImageEnv_def encoderFailsEnv_def)

section \<open>The shared engine\<close>

text \<open>
  C7 fails for overlapping callers. Caller A enters \<^verbatim>\<open>getOcrWorker\<close>, finds the reference
  null, starts \<^verbatim>\<open>createWorker\<close> and awaits; caller B enters before A resumes, finds the
  reference still null and starts a second construction; A resumes and stores engine 0,
  B resumes and stores engine 1. Two engines were constructed and the callers hold
  different instances.
\<close>

theorem getOcrWorker_overlap_counterexample:
  "twoOverlappingCalls demoEnv demoState =
     ((Inr (Worker 0), Inr (Worker 1)),
      demoState\<lparr>ocrWorker := Some (Worker 1), ext := \<lparr>clock = 1000, constructed = 2\<rparr>\<rparr>)"
  by (simp add: twoOverlappingCalls_def getOcrWorker_begin_def getOcrWorker_resume_def
        demoEnv_def demoState_def)

text \<open>
  C7, amended. For calls that do not overlap: once a call to \<^verbatim>\<open>getOcrWorker\<close> has
  succeeded, a later call returns the same instance and leaves the state, the external
  world included, untouched (no construction), also after any \<^verbatim>\<open>processImageWithOcr\<close>; if
  construction fails the call raises \<^verbatim>\<open>Failed to initialize OCR worker\<close> and the reference
  stays null, so the next call constructs again. A call is its two segments run one
  after the other, and a caller that enters while the reference is null starts a
  construction and leaves the reference null until it resumes. A successful
  \<^verbatim>\<open>terminateOcrWorker\<close> sets the reference back to null.
\<close>

theorem getOcrWorker_shared_instance:
  "(ocrWorker s = Some w \<longrightarrow> getOcrWorker env s = (Inr w, s))
   \<and> (ocrWorker s = None \<and> createWorker env ''eng'' (ext s) = (Inr w, x) \<longrightarrow>
        getOcrWorker env s = (Inr w, s\<lparr>ext := x, ocrWorker := Some w\<rparr>))
   \<and> (ocrWorker s = None \<and> createWorker env ''eng'' (ext s) = (Inl e, x) \<longrightarrow>
        getOcrWorker env s = (Inl (ErrorObj ''Failed to initialize OCR worker''), s\<lparr>ext := x\<rparr>)
        \<and> ocrWorker (s\<lparr>ext := x\<rparr>) = None)
   \<and> (getOcrWorker env s = (Inr w, s1) \<longrightarrow>
        getOcrWorker env s1 = (Inr w, s1)
        \<and> ocrWorker (snd (processImageWithOcr env b l s1)) = Some w
        \<and> getOcrWorker env (snd (processImageWithOcr env b l s1))
            = (Inr w, snd (processImageWithOcr env b l s1)))
   \<and> getOcrWorker env s =
        (case getOcrWorker_begin env s of (p, s') \<Rightarrow> getOcrWorker_resume p s')
   \<and> (ocrWorker s = None \<and> createWorker env ''eng'' (ext s) = (r, x) \<longrightarrow>
        getOcrWorker_begin env s = (Awaiting r, s\<lparr>ext := x\<rparr>)
        \<and> ocrWorker (s\<lparr>ext := x\<rparr>) = None)
   \<and> (ocrWorker s = Some w \<and> terminate env w (ext s) = (Inr (), x) \<longrightarrow>
        terminateOcrWorker env s = (Inr (), s\<lparr>ext := x, ocrWorker := None\<rparr>))"
proof (intro conjI impI)
  assume "ocrWorker s = Some w"
  then show "getOcrWorker env s = (Inr w, s)" by (rule getOcrWorker_keeps)
next
  assume "ocrWorker s = None \<and> createWorker env ''eng'' (ext s) = (Inr w, x)"
  then show "getOcrWorker env s = (Inr w, s\<lparr>ext := x, ocrWorker := Some w\<rparr>)"
    by (simp add: getOcrWorker_cases)
next
  assume "ocrWorker s = None \<and> createWorker env ''eng'' (ext s) = (Inl e, x)"
  then show "getOcrWorker env s = (Inl (ErrorObj ''Failed to initialize OCR worker''), s\<lparr>ext := x\<rparr>)"
    by (simp add: getOcrWorker_cases)
next
  assume "ocrWorker s = None \<and> createWorker env ''eng'' (ext s) = (Inl e, x)"
  then show "ocrWorker (s\<lparr>ext := x\<rparr>) = None" by simp
next
  assume a: "getOcrWorker env s = (Inr w, s1)"
  then have w: "ocrWorker s1 = Some w"
    by (auto simp: getOcrWorker_cases split: option.splits prod.splits sum.splits)
  then show "getOcrWorker env s1 = (Inr w, s1)" by (rule getOcrWorker_keeps)
  from w show k: "ocrWorker (snd (processImageWithOcr env b l s1)) = Some w"
    by (rule processImageWithOcr_keeps_worker)
  then show "getOcrWorker env (snd (processImageWithOcr env b l s1))
            = (Inr w, snd (processImageWithOcr env b l s1))"
    by (rule getOcrWorker_keeps)
next
  show "getOcrWorker env s =
        (case getOcrWorker_begin env s of (p, s') \<Rightarrow> getOcrWorker_resume p s')"
    by (rule getOcrWorker_segments)
next
  assume "ocrWorker s = None \<and> createWorker env ''eng'' (ext s) = (r, x)"
  then show "getOcrWorker_begin env s = (Awaiting r, s\<lparr>ext := x\<rparr>)"
    by (simp add: getOcrWorker_begin_def)
next
  assume "ocrWorker s = None \<and> createWorker env ''eng'' (ext s) = (r, x)"
  then show "ocrWorker (s\<lparr>ext := x\<rparr>) = None" by simp
next
  assume "ocrWorker s = Some w \<and> terminate env w (ext s) = (Inr (), x)"
  then show "terminateOcrWorker env s = (Inr (), s\<lparr>ext := x, ocrWorker := None\<rparr>)"
    by (simp add: terminateOcrWorker_def tryCatch_def andThen_def external_def
          setOcrWorker_def)
qed

theorem getOcrWorker_shared_instance_witness:
  "getOcrWorker demoEnv demoState =
     (Inr (Worker 0),
      demoState\<lparr>ext := \<lparr>clock = 1000, constructed = 1\<rparr>, ocrWorker := Some (Worker 0)\<rparr>)
   \<and> getOcrWorker demoEnv
        (demoState\<lparr>ext := \<lparr>clock = 1000, constructed = 1\<rparr>, ocrWorker := Some (Worker 0)\<rparr>) =
     (Inr (Worker 0),
      demoState\<lparr>ext := \<lparr>clock = 1000, constructed = 1\<rparr>, ocrWorker := Some (Worker 0)\<rparr>)
   \<and> getOcrWorker engineDownEnv demoState =
     (Inl (ErrorObj ''Failed to initialize OCR worker''),
      demoState\<lparr>ext := \<lparr>clock = 1005, constructed = 0\<rparr>\<rparr>)
   \<and> ocrWorker (snd (getOcrWorker engineDownEnv demoState)) = None
   \<and> getOcrWorker_begin demoEnv demoState =
     (Awaiting (Inr (Worker 0)), demoState\<lparr>ext := \<lparr>clock = 1000, constructed = 1\<rparr>\<rparr>)
   \<and> terminateOcrWorker demoEnv
        (demoState\<lparr>ext := \<lparr>clock = 1000, constructed = 1\<rparr>, ocrWorker := Some (Worker 0)\<rparr>) =
     (Inr (), demoState\<lparr>ext := \<lparr>clock = 1000, constructed = 1\<rparr>\<rparr>)"
proof -
  let ?s1 = "demoState\<lparr>ext := \<lparr>clock = 1000, constructed = 1\<rparr>, ocrWorker := Some (Worker 0)\<rparr>"
  have c: "createWorker demoEnv ''eng'' (ext demoState) =
      (Inr (Worker 0), \<lparr>clock = 1000, constructed = 1\<rparr>)"
    by (simp add: demoEnv_def demoState_def)
  have n: "ocrWorker demoState = None" by (simp add: demoState_def)
  from getOcrWorker_shared_instance [where env = demoEnv and s = demoState and w = "Worker 0"
      and x = "\<lparr>clock = 1000, constructed = 1\<rparr>"] c n
  have first: "getOcrWorker demoEnv demoState = (Inr (Worker 0), ?s1)" by simp
  from getOcrWorker_shared_instance [where env = demoEnv and s = demoState and w = "Worker 0"
      and ?s1.0 = ?s1] first
  have again: "getOcrWorker demoEnv ?s1 = (Inr (Worker 0), ?s1)" by simp
  from getOcrWorker_shared_instance [where env = demoEnv and s = demoState
      and r = "Inr (Worker 0)" and x = "\<lparr>clock = 1000, constructed = 1\<rparr>"] c n
  have begun: "getOcrWorker_begin demoEnv demoState =
      (Awaiting (Inr (Worker 0)), demoState\<lparr>ext := \<lparr>clock = 1000, constructed = 1\<rparr>\<rparr>)"
    by simp
  have cb: "createWorker engineDownEnv ''eng'' (ext demoState) =
      (Inl OtherValue, \<lparr>clock = 1005, constructed = 0\<rparr>)"
    by (simp add: engineDownEnv_def demoState_def)
  from getOcrWorker_shared_instance [where env = engineDownEnv and s = demoState
      and e = OtherValue and x = "\<lparr>clock = 1005, constructed = 0\<rparr>"] cb n
  have failed: "getOcrWorker engineDownEnv demoState =
      (Inl (ErrorObj ''Failed to initialize OCR worker''),
       demoState\<lparr>ext := \<lparr>clock = 1005, constructed = 0\<rparr>\<rparr>)" by simp
  have tm: "terminate demoEnv (Worker 0) (ext ?s1) = (Inr (), \<lparr>clock = 1000, constructed = 1\<rparr>)"
    by (simp add: demoEnv_def)
  from getOcrWorker_shared_instance [where env = demoEnv and s = ?s1 and w = "Worker 0"
      and x = "\<lparr>clock = 1000, constructed = 1\<rparr>"] tm
  have ended: "terminateOcrWorker demoEnv ?s1 =
      (Inr (), demoState\<lparr>ext := \<lparr>clock = 1000, constructed = 1\<rparr>\<rparr>)"
    by (simp add: demoState_def)
  from first again failed begun ended n show ?thesis by simp
qed

section \<open>Outcomes of recognition\<close>

text \<open>
  C4. Let the call read the clock as \<open>t0\<close> and optimization return. When the reference is
  null and \<^verbatim>\<open>createWorker\<close> throws, or when the engine is obtained and \<^verbatim>\<open>recognize\<close>
  throws, \<^verbatim>\<open>processImageWithOcr\<close> does not throw: it returns \<^verbatim>\<open>success = false\<close>, the
  empty text, confidence 0, the language it was given and, with \<open>t1\<close> the clock read
  after the failure, \<^verbatim>\<open>processingTimeMs = t1 - t0\<close>. The error is
  \<^verbatim>\<open>Failed to initialize OCR worker\<close> in the first case; in the second it is the message
  of the thrown \<^verbatim>\<open>Error\<close>, and \<^verbatim>\<open>Unknown error\<close> when the thrown value is not an \<^verbatim>\<open>Error\<close>.
\<close>

theorem processImageWithOcr_failure:
  assumes "dateNow env (ext s) = (t0, x0)"
    and "optimizeImage env imageBuffer (s\<lparr>ext := x0\<rparr>) = (Inr optimized, s1)"
  shows "(ocrWorker s1 = None \<and> createWorker env ''eng'' (ext s1) = (Inl e, x2)
            \<and> dateNow env x2 = (t1, x3) \<longrightarrow>
          processImageWithOcr env imageBuffer lang s =
            (Inr \<lparr>o_text = [], o_confidence = Num 0, o_language = lang,
                  o_processingTimeMs = t1 - t0, o_success = False,
                  o_error = Some ''Failed to initialize OCR worker''\<rparr>,
             s1\<lparr>ext := x3\<rparr>))
       \<and> (getOcrWorker env s1 = (Inr w, s2) \<and> recognize env w optimized (ext s2) = (Inl e, x2)
            \<and> dateNow env x2 = (t1, x3) \<longrightarrow>
          processImageWithOcr env imageBuffer lang s =
            (Inr \<lparr>o_text = [], o_confidence = Num 0, o_language = lang,
                  o_processingTimeMs = t1 - t0, o_success = False,
                  o_error = Some (case e of ErrorObj message \<Rightarrow> message
                                          | OtherValue \<Rightarrow> ''Unknown error'')\<rparr>,
             s2\<lparr>ext := x3\<rparr>))"
  by (simp add: processImageWithOcr_unfold [OF assms] getOcrWorker_cases errorMessage_def
        split: option.splits prod.splits sum.splits thrown.splits)

theorem processImageWithOcr_failure_witness:
  "processImageWithOcr engineDownEnv [7] ''eng'' demoState =
     (Inr \<lparr>o_text = [], o_confidence = Num 0, o_language = ''eng'',
           o_processingTimeMs = 5, o_success = False,
           o_error = Some ''Failed to initialize OCR worker''\<rparr>,
      demoState\<lparr>ext := \<lparr>clock = 1005, constructed = 0\<rparr>\<rparr>)
   \<and> processImageWithOcr recognitionFailsEnv [7] ''eng'' demoState =
     (Inr \<lparr>o_text = [], o_confidence = Num 0, o_language = ''eng'',
           o_processingTimeMs = 9, o_success = False,
           o_error = Some ''out of memory''\<rparr>,
      demoState\<lparr>ocrWorker := Some (Worker 0), ext := \<lparr>clock = 1009, constructed = 1\<rparr>\<rparr>)"
proof
  have t: "dateNow engineDownEnv (ext demoState) = (1000, ext demoState)"
    by (simp add: engineDownEnv_def demoEnv_def demoState_def)
  have o: "optimizeImage engineDownEnv [7] (demoState\<lparr>ext := ext demoState\<rparr>)
      = (Inr [1, 0, 7], demoState)"
    by (simp add: run_simps)
  from processImageWithOcr_failure [OF t o, where e = OtherValue
      and ?x2.0 = "\<lparr>clock = 1005, constructed = 0\<rparr>" and ?t1.0 = 1005
      and ?x3.0 = "\<lparr>clock = 1005, constructed = 0\<rparr>" and lang = "''eng''"]
  show "processImageWithOcr engineDownEnv [7] ''eng'' demoState =
     (Inr \<lparr>o_text = [], o_confidence = Num 0, o_language = ''eng'',
           o_processingTimeMs = 5, o_success = False,
           o_error = Some ''Failed to initialize OCR worker''\<rparr>,
      demoState\<lparr>ext := \<lparr>clock = 1005, constructed = 0\<rparr>\<rparr>)"
    by (simp add: engineDownEnv_def demoEnv_def demoState_def)
next
  have t: "dateNow recognitionFailsEnv (ext demoState) = (1000, ext demoState)"
    by (simp add: recognitionFailsEnv_def demoEnv_def demoState_def)
  have o: "optimizeImage recognitionFailsEnv [7] (demoState\<lparr>ext := ext demoState\<rparr>)
      = (Inr [1, 0, 7], demoState)"
    by (simp add: run_simps)
  from processImageWithOcr_failure [OF t o, where e = "ErrorObj ''out of memory''"
      and w = "Worker 0"
      and ?s2.0 = "demoState\<lparr>ocrWorker := Some (Worker 0), ext := \<lparr>clock = 1000, constructed = 1\<rparr>\<rparr>"
      and ?x2.0 = "\<lparr>clock = 1009, constructed = 1\<rparr>" and ?t1.0 = 1009
      and ?x3.0 = "\<lparr>clock = 1009, constructed = 1\<rparr>" and lang = "''eng''"]
  show "processImageWithOcr recognitionFailsEnv [7] ''eng'' demoState =
     (Inr \<lparr>o_text = [], o_confidence = Num 0, o_language = ''eng'',
           o_processingTimeMs = 9, o_success = False,
           o_error = Some ''out of memory''\<rparr>,
      demoState\<lparr>ocrWorker := Some (Worker 0), ext := \<lparr>clock = 1009, constructed = 1\<rparr>\<rparr>)"
    by (simp add: getOcrWorker_cases recognitionFailsEnv_def demoEnv_def demoState_def)
qed

text \<open>
  C5. \<^verbatim>\<open>processImageWithOcr\<close> always returns an outcome, and an outcome with
  \<^verbatim>\<open>success = true\<close> comes from a recognition that returned: its text is the engine's
  text, or the empty string when the engine gave none; its confidence is the engine's
  confidence (0 when the engine gave none) times 100 in binary64, rounded by
  \<^verbatim>\<open>Math.round\<close>; for an engine confidence in \<open>[0, 1]\<close> that is an integer in \<open>[0, 100]\<close>.
  A confidence of \<open>0.0\<close> gives 0, and \<open>0.876\<close> (the binary64 value nearest to it)
  gives 88.
\<close>

theorem processImageWithOcr_confidence:
  "(\<exists>out. fst (processImageWithOcr env imageBuffer lang s) = Inr out
      \<and> (o_success out \<longrightarrow>
           (\<exists>t0 x0 optimized s1 w s2 result x3.
               dateNow env (ext s) = (t0, x0)
             \<and> optimizeImage env imageBuffer (s\<lparr>ext := x0\<rparr>) = (Inr optimized, s1)
             \<and> getOcrWorker env s1 = (Inr w, s2)
             \<and> recognize env w optimized (ext s2) = (Inr result, x3)
             \<and> o_text out = strOr (dataText result) []
             \<and> o_confidence out
                 = mathRound (jsTimes (numOr (dataConfidence result) (Num 0)) 100)
             \<and> (dataConfidence result = None \<longrightarrow> o_confidence out = Num 0)
             \<and> (\<forall>c. dataConfidence result = Some (Num c) \<and> 0 \<le> c \<and> c \<le> 1 \<longrightarrow>
                    (\<exists>k. o_confidence out = Num (of_int k) \<and> 0 \<le> k \<and> k \<le> 100)))))
   \<and> mathRound (jsTimes (numOr (Some (Num 0)) (Num 0)) 100) = Num 0
   \<and> mathRound (jsTimes (numOr (Some (toDouble (876 / 1000))) (Num 0)) 100) = Num 88"
proof (intro conjI)
  obtain t0 x0 where t: "dateNow env (ext s) = (t0, x0)" by (cases "dateNow env (ext s)")
  obtain optimized s1 where o: "optimizeImage env imageBuffer (s\<lparr>ext := x0\<rparr>) = (Inr optimized, s1)"
    using optimizeImage_returns [of env imageBuffer "s\<lparr>ext := x0\<rparr>"] by blast
  note u = processImageWithOcr_unfold [OF t o, of lang]
  show "\<exists>out. fst (processImageWithOcr env imageBuffer lang s) = Inr out
      \<and> (o_success out \<longrightarrow>
           (\<exists>t0 x0 optimized s1 w s2 result x3.
               dateNow env (ext s) = (t0, x0)
             \<and> optimizeImage env imageBuffer (s\<lparr>ext := x0\<rparr>) = (Inr optimized, s1)
             \<and> getOcrWorker env s1 = (Inr w, s2)
             \<and> recognize env w optimized (ext s2) = (Inr result, x3)
             \<and> o_text out = strOr (dataText result) []
             \<and> o_confidence out
                 = mathRound (jsTimes (numOr (dataConfidence result) (Num 0)) 100)
             \<and> (dataConfidence result = None \<longrightarrow> o_confidence out = Num 0)
             \<and> (\<forall>c. dataConfidence result = Some (Num c) \<and> 0 \<le> c \<and> c \<le> 1 \<longrightarrow>
                    (\<exists>k. o_confidence out = Num (of_int k) \<and> 0 \<le> k \<and> k \<le> 100))))"
  proof (cases "getOcrWorker env s1")
    case (Pair r s2)
    show ?thesis
    proof (cases r)
      case (Inl e)
      with Pair show ?thesis by (simp add: u split: prod.splits)
    next
      case (Inr w)
      obtain rr x3 where rec: "recognize env w optimized (ext s2) = (rr, x3)"
        by (cases "recognize env w optimized (ext s2)")
      show ?thesis
      proof (cases rr)
        case (Inl e)
        with Pair Inr rec show ?thesis by (simp add: u split: prod.splits)
      next
        case (Inr result)
        obtain t1 x4 where t1: "dateNow env x3 = (t1, x4)" by (cases "dateNow env x3")
        define out where "out =
          \<lparr>o_text = strOr (dataText result) [],
           o_confidence = mathRound (jsTimes (numOr (dataConfidence result) (Num 0)) 100),
           o_language = lang, o_processingTimeMs = t1 - t0, o_success = True,
           o_error = None\<rparr>"
        have res: "fst (processImageWithOcr env imageBuffer lang s) = Inr out"
          using Pair \<open>r = Inr w\<close> rec Inr t1 by (simp add: u out_def)
        have g: "getOcrWorker env s1 = (Inr w, s2)" using Pair \<open>r = Inr w\<close> by simp
        have rec': "recognize env w optimized (ext s2) = (Inr result, x3)"
          using rec Inr by simp
        have otext: "o_text out = strOr (dataText result) []" by (simp add: out_def)
        have c_eq: "o_confidence out
            = mathRound (jsTimes (numOr (dataConfidence result) (Num 0)) 100)"
          by (simp add: out_def)
        have none: "dataConfidence result = None \<longrightarrow> o_confidence out = Num 0"
          unfolding c_eq by (simp add: percentage_of_none)
        have range: "\<forall>c. dataConfidence result = Some (Num c) \<and> 0 \<le> c \<and> c \<le> 1 \<longrightarrow>
            (\<exists>k. o_confidence out = Num (of_int k) \<and> 0 \<le> k \<and> k \<le> 100)"
          unfolding c_eq using confidence_percentage by auto
        have body: "\<exists>t0 x0 optimized s1 w s2 result x3.
               dateNow env (ext s) = (t0, x0)
             \<and> optimizeImage env imageBuffer (s\<lparr>ext := x0\<rparr>) = (Inr optimized, s1)
             \<and> getOcrWorker env s1 = (Inr w, s2)
             \<and> recognize env w optimized (ext s2) = (Inr result, x3)
             \<and> o_text out = strOr (dataText result) []
             \<and> o_confidence out
                 = mathRound (jsTimes (numOr (dataConfidence result) (Num 0)) 100)
             \<and> (dataConfidence result = None \<longrightarrow> o_confidence out = Num 0)
             \<and> (\<forall>c. dataConfidence result = Some (Num c) \<and> 0 \<le> c \<and> c \<le> 1 \<longrightarrow>
                    (\<exists>k. o_confidence out = Num (of_int k) \<and> 0 \<le> k \<and> k \<le> 100))"
          by (rule exI [of _ t0], rule exI [of _ x0], rule exI [of _ optimized],
              rule exI [of _ s1], rule exI [of _ w], rule exI [of _ s2],
              rule exI [of _ result], rule exI [of _ x3])
             (intro conjI, rule t, rule o, rule g, rule rec', rule otext, rule c_eq,
              rule none, rule range)
        show ?thesis
          by (rule exI [of _ out], rule conjI, rule res, rule impI, rule body)
      qed
    qed
  qed
next
  show "mathRound (jsTimes (numOr (Some (Num 0)) (Num 0)) 100) = Num 0"
    by (rule percentage_of_zero)
next
  show "mathRound (jsTimes (numOr (Some (toDouble (876 / 1000))) (Num 0)) 100) = Num 88"
    by (rule percentage_of_0_876)
qed

theorem processImageWithOcr_confidence_witness:
  "processImageWithOcr demoEnv [7] ''eng'' demoState =
     (Inr \<lparr>o_text = ''hello'', o_confidence = Num 50, o_language = ''eng'',
           o_processingTimeMs = 40, o_success = True, o_error = None\<rparr>,
      demoState\<lparr>ocrWorker := Some (Worker 0), ext := \<lparr>clock = 1040, constructed = 1\<rparr>\<rparr>)
   \<and> o_confidence (projr (fst (processImageWithOcr demoEnv [7] ''eng'' demoState)))
        \<in> Num ` of_int ` {0..100}"
proof -
  have run: "processImageWithOcr demoEnv [7] ''eng'' demoState =
     (Inr \<lparr>o_text = ''hello'', o_confidence = Num 50, o_language = ''eng'',
           o_processingTimeMs = 40, o_success = True, o_error = None\<rparr>,
      demoState\<lparr>ocrWorker := Some (Worker 0), ext := \<lparr>clock = 1040, constructed = 1\<rparr>\<rparr>)"
    by (simp add: run_simps)
  from processImageWithOcr_confidence [of demoEnv "[7]" "''eng''" demoState, THEN conjunct1]
  obtain out where out: "fst (processImageWithOcr demoEnv [7] ''eng'' demoState) = Inr out"
    and inv: "o_success out \<longrightarrow>
           (\<exists>t0 x0 optimized s1 w s2 result x3.
               dateNow demoEnv (ext demoState) = (t0, x0)
             \<and> optimizeImage demoEnv [7] (demoState\<lparr>ext := x0\<rparr>) = (Inr optimized, s1)
             \<and> getOcrWorker demoEnv s1 = (Inr w, s2)
             \<and> recognize demoEnv w optimized (ext s2) = (Inr result, x3)
             \<and> o_text out = strOr (dataText result) []
             \<and> o_confidence out
                 = mathRound (jsTimes (numOr (dataConfidence result) (Num 0)) 100)
             \<and> (dataConfidence result = None \<longrightarrow> o_confidence out = Num 0)
             \<and> (\<forall>c. dataConfidence result = Some (Num c) \<and> 0 \<le> c \<and> c \<le> 1 \<longrightarrow>
                    (\<exists>k. o_confidence out = Num (of_int k) \<and> 0 \<le> k \<and> k \<le> 100)))"
    by (elim exE conjE)
  from out run have s: "o_success out" by auto
  from inv [rule_format, OF s] obtain t0 x0 optimized s1 w s2 result x3 where
      "dateNow demoEnv (ext demoState) = (t0, x0)"
    and "optimizeImage demoEnv [7] (demoState\<lparr>ext := x0\<rparr>) = (Inr optimized, s1)"
    and "getOcrWorker demoEnv s1 = (Inr w, s2)"
    and rec: "recognize demoEnv w optimized (ext s2) = (Inr result, x3)"
    and "o_text out = strOr (dataText result) []"
    and "o_confidence out = mathRound (jsTimes (numOr (dataConfidence result) (Num 0)) 100)"
    and "dataConfidence result = None \<longrightarrow> o_confidence out = Num 0"
    and range: "\<forall>c. dataConfidence result = Some (Num c) \<and> 0 \<le> c \<and> c \<le> 1 \<longrightarrow>
                    (\<exists>k. o_confidence out = Num (of_int k) \<and> 0 \<le> k \<and> k \<le> 100)"
    by (elim exE conjE)
  from rec have "dataConfidence result = Some (Num (1 / 2))"
    by (auto simp: demoEnv_def)
  with range [rule_format, of "1 / 2"]
  have "\<exists>k. o_confidence out = Num (of_int k) \<and> 0 \<le> k \<and> k \<le> 100"
    by simp
  then have "o_confidence out \<in> Num ` of_int ` {0..100}" by auto
  with out run show ?thesis by simp
qed

section \<open>Batch processing: totals and isolation of failures\<close>

text \<open>
  One iteration never throws: it appends one entry, named after its image, either to
  \<^verbatim>\<open>results\<close> or to \<^verbatim>\<open>errors\<close>, and keeps what the arrays held.
\<close>

lemma batchItem_appends:
  "\<exists>s'. (\<exists>x. batchItem env u img (rs, es) s = (Inr (rs @ [x], es), s')
              \<and> r_fileName x = i_fileName img \<and> r_success x)
      \<or> (\<exists>y. batchItem env u img (rs, es) s = (Inr (rs, es @ [y]), s')
              \<and> e_fileName y = i_fileName img)"
  unfolding batchItem_def tryCatch_def andThen_def ret_def Let_def
  by (auto split: prod.splits sum.splits)

lemma batchLoop_extends:
  "\<exists>rs' es' s'. batchLoop env u imgs (rs, es) s = (Inr (rs @ rs', es @ es'), s')
      \<and> length rs' + length es' = length imgs"
proof (induction imgs arbitrary: rs es s)
  case Nil
  show ?case by (simp add: ret_def)
next
  case (Cons img rest)
  from batchItem_appends [of env u img rs es s]
  obtain ra ea s1 where step: "batchItem env u img (rs, es) s = (Inr (rs @ ra, es @ ea), s1)"
    and len: "length ra + length ea = 1"
    by fastforce
  from Cons.IH [of "rs @ ra" "es @ ea" s1]
  obtain rb eb s' where "batchLoop env u rest (rs @ ra, es @ ea) s1
        = (Inr ((rs @ ra) @ rb, (es @ ea) @ eb), s')"
    and "length rb + length eb = length rest"
    by blast
  with step len have "batchLoop env u (img # rest) (rs, es) s
        = (Inr (rs @ (ra @ rb), es @ (ea @ eb)), s')
      \<and> length (ra @ rb) + length (ea @ eb) = length (img # rest)"
    by (simp add: andThen_def)
  then show ?case by blast
qed

lemma batchLoop_append:
  "batchLoop env u (xs @ ys) acc s =
     andThen (batchLoop env u xs acc) (batchLoop env u ys) s"
proof (induction xs arbitrary: acc s)
  case Nil
  show ?case by (simp add: andThen_def ret_def)
next
  case (Cons x xs)
  show ?case
    by (simp add: andThen_def Cons.IH split: prod.splits sum.splits)
qed

text \<open>
  C1. For every list of images, from every state and with any collaborators,
  \<^verbatim>\<open>processBatch\<close> returns (it does not throw) an outcome whose \<^verbatim>\<open>totalProcessed\<close> is the
  length of \<^verbatim>\<open>results\<close>, whose \<^verbatim>\<open>totalFailed\<close> is the length of \<^verbatim>\<open>errors\<close>, and whose two
  totals add up to the number of input images. On the empty list it returns empty
  \<^verbatim>\<open>results\<close> and \<^verbatim>\<open>errors\<close> and both totals \<open>0\<close>, and leaves the state as it was.
\<close>

theorem processBatch_totals:
  "(\<exists>out s'. processBatch env ctxUserId images s = (Inr out, s')
      \<and> totalProcessed out = length (results out)
      \<and> totalFailed out = length (errors out)
      \<and> totalProcessed out + totalFailed out = length images)
   \<and> processBatch env ctxUserId [] s =
       (Inr \<lparr>b_success = True, results = [], errors = [],
             totalProcessed = 0, totalFailed = 0\<rparr>, s)"
proof
  from batchLoop_extends [of env ctxUserId images "[]" "[]" s]
  obtain rs es s' where "batchLoop env ctxUserId images ([], []) s = (Inr (rs, es), s')"
    and "length rs + length es = length images"
    by auto
  then show "\<exists>out s'. processBatch env ctxUserId images s = (Inr out, s')
      \<and> totalProcessed out = length (results out)
      \<and> totalFailed out = length (errors out)
      \<and> totalProcessed out + totalFailed out = length images"
    by (simp add: processBatch_def andThen_def ret_def)
next
  show "processBatch env ctxUserId [] s =
       (Inr \<lparr>b_success = True, results = [], errors = [],
             totalProcessed = 0, totalFailed = 0\<rparr>, s)"
    by (simp add: processBatch_def andThen_def ret_def)
qed

text \<open>
  C2. Take any image of a batch, with the images \<open>before\<close> and \<open>after\<close> it. Whatever
  happened to the images before, the loop reaches the image, runs the iteration on it
  and goes on with the images after it. The iteration does not throw and adds exactly
  one entry carrying the image's file name: to \<^verbatim>\<open>results\<close>, or \<open>{fileName, error}\<close> to
  \<^verbatim>\<open>errors\<close>; the entries of the earlier images stay in front of it, and the later images
  add one entry each behind it. When validation fails, when recognition reports failure,
  when the upload throws or when persistence throws, the entry goes to \<^verbatim>\<open>errors\<close> with the
  message of that failure, and \<^verbatim>\<open>results\<close> is unchanged.
\<close>

theorem processBatch_isolates_failures:
  fixes env :: "'x env" and img :: image_input
  defines "buf \<equiv> base64Decode env (i_imageData img)"
  defines "v \<equiv> validateImageFile (numberToString env) buf (i_mimeType img) None"
  defines "entry \<equiv> \<lambda>message. \<lparr>e_fileName = i_fileName img, e_error = message\<rparr>"
  shows "\<exists>rs1 es1 s1 rs2 es2 s2 out s3.
      batchLoop env ctxUserId before ([], []) s = (Inr (rs1, es1), s1)
    \<and> batchItem env ctxUserId img (rs1, es1) s1 = (Inr (rs2, es2), s2)
    \<and> batchLoop env ctxUserId after (rs2, es2) s2 = (Inr (results out, errors out), s3)
    \<and> processBatch env ctxUserId (before @ img # after) s = (Inr out, s3)
    \<and> ((\<exists>x. rs2 = rs1 @ [x] \<and> es2 = es1 \<and> r_fileName x = i_fileName img)
        \<or> (\<exists>message. rs2 = rs1 \<and> es2 = es1 @ [entry message]))
    \<and> (\<exists>rs3 es3. results out = rs2 @ rs3 \<and> errors out = es2 @ es3
          \<and> length rs3 + length es3 = length after)
    \<and> (\<not> valid v \<longrightarrow>
          rs2 = rs1 \<and> es2 = es1 @ [entry (strOr (v_error v) ''Invalid image'')])
    \<and> (\<forall>ocr sa. valid v
          \<and> processImageWithOcr env buf (i_language img) s1 = (Inr ocr, sa)
          \<and> \<not> o_success ocr \<longrightarrow>
          rs2 = rs1 \<and> es2 = es1 @ [entry (strOr (o_error ocr) ''OCR processing failed'')])
    \<and> (\<forall>ocr sa token xb e xc. valid v
          \<and> processImageWithOcr env buf (i_language img) s1 = (Inr ocr, sa)
          \<and> o_success ocr
          \<and> nanoid env (ext sa) = (token, xb)
          \<and> storagePut env (fileKeyOf env ctxUserId token (i_fileName img)) buf
               (i_mimeType img) xb = (Inl e, xc) \<longrightarrow>
          rs2 = rs1 \<and> es2 = es1 @ [entry (errorMessage e ''Unknown error'')])
    \<and> (\<forall>ocr sa token xb url xc e sd. valid v
          \<and> processImageWithOcr env buf (i_language img) s1 = (Inr ocr, sa)
          \<and> o_success ocr
          \<and> nanoid env (ext sa) = (token, xb)
          \<and> storagePut env (fileKeyOf env ctxUserId token (i_fileName img)) buf
               (i_mimeType img) xb = (Inr url, xc)
          \<and> saveOcrResult env
               \<lparr>userId = ctxUserId, imageFileName = i_fileName img, imageUrl = url,
                extractedText = o_text ocr, confidence = o_confidence ocr,
                language = i_language img, processingTimeMs = o_processingTimeMs ocr\<rparr>
               (sa\<lparr>ext := xc\<rparr>) = (Inl e, sd) \<longrightarrow>
          rs2 = rs1 \<and> es2 = es1 @ [entry (errorMessage e ''Unknown error'')])"
proof -
  from batchLoop_extends [of env ctxUserId before "[]" "[]" s]
  obtain rs1 es1 s1 where b: "batchLoop env ctxUserId before ([], []) s = (Inr (rs1, es1), s1)"
    by auto
  from batchItem_appends [of env ctxUserId img rs1 es1 s1]
  obtain rs2 es2 s2 where i: "batchItem env ctxUserId img (rs1, es1) s1 = (Inr (rs2, es2), s2)"
    and one: "(\<exists>x. rs2 = rs1 @ [x] \<and> es2 = es1 \<and> r_fileName x = i_fileName img)
        \<or> (\<exists>message. rs2 = rs1 \<and> es2 = es1 @ [entry message])"
  proof -
    assume r: "\<And>rs2 es2 s2. batchItem env ctxUserId img (rs1, es1) s1 = (Inr (rs2, es2), s2) \<Longrightarrow>
      (\<exists>x. rs2 = rs1 @ [x] \<and> es2 = es1 \<and> r_fileName x = i_fileName img)
        \<or> (\<exists>message. rs2 = rs1 \<and> es2 = es1 @ [entry message]) \<Longrightarrow> thesis"
    from batchItem_appends [of env ctxUserId img rs1 es1 s1]
    obtain s' where "(\<exists>x. batchItem env ctxUserId img (rs1, es1) s1 = (Inr (rs1 @ [x], es1), s')
              \<and> r_fileName x = i_fileName img \<and> r_success x)
      \<or> (\<exists>y. batchItem env ctxUserId img (rs1, es1) s1 = (Inr (rs1, es1 @ [y]), s')
              \<and> e_fileName y = i_fileName img)" by blast
    then show thesis
    proof
      assume "\<exists>x. batchItem env ctxUserId img (rs1, es1) s1 = (Inr (rs1 @ [x], es1), s')
              \<and> r_fileName x = i_fileName img \<and> r_success x"
      then show thesis using r by blast
    next
      assume "\<exists>y. batchItem env ctxUserId img (rs1, es1) s1 = (Inr (rs1, es1 @ [y]), s')
              \<and> e_fileName y = i_fileName img"
      then obtain y where y: "batchItem env ctxUserId img (rs1, es1) s1 = (Inr (rs1, es1 @ [y]), s')"
        and "e_fileName y = i_fileName img" by blast
      then have "y = entry (e_error y)" by (simp add: entry_def)
      with y show thesis using r by blast
    qed
  qed
  from batchLoop_extends [of env ctxUserId after rs2 es2 s2]
  obtain rs3 es3 s3 where a: "batchLoop env ctxUserId after (rs2, es2) s2
        = (Inr (rs2 @ rs3, es2 @ es3), s3)"
    and len: "length rs3 + length es3 = length after"
    by blast
  define out where "out = \<lparr>b_success = True, results = rs2 @ rs3, errors = es2 @ es3,
      totalProcessed = length (rs2 @ rs3), totalFailed = length (es2 @ es3)\<rparr>"
  have p: "processBatch env ctxUserId (before @ img # after) s = (Inr out, s3)"
    using b i a by (simp add: processBatch_def batchLoop_append andThen_def ret_def out_def)
  have c: "batchItem env ctxUserId img (rs1, es1) s1 = (Inr (rs2, es2), s2)" by (rule i)
  have f1: "\<not> valid v \<longrightarrow> rs2 = rs1 \<and> es2 = es1 @ [entry (strOr (v_error v) ''Invalid image'')]"
    using c unfolding batchItem_cases Let_def v_def buf_def entry_def by auto
  have f2: "\<forall>ocr sa. valid v
          \<and> processImageWithOcr env buf (i_language img) s1 = (Inr ocr, sa)
          \<and> \<not> o_success ocr \<longrightarrow>
          rs2 = rs1 \<and> es2 = es1 @ [entry (strOr (o_error ocr) ''OCR processing failed'')]"
    using c unfolding batchItem_cases Let_def v_def buf_def entry_def by auto
  have f3: "\<forall>ocr sa token xb e xc. valid v
          \<and> processImageWithOcr env buf (i_language img) s1 = (Inr ocr, sa)
          \<and> o_success ocr
          \<and> nanoid env (ext sa) = (token, xb)
          \<and> storagePut env (fileKeyOf env ctxUserId token (i_fileName img)) buf
               (i_mimeType img) xb = (Inl e, xc) \<longrightarrow>
          rs2 = rs1 \<and> es2 = es1 @ [entry (errorMessage e ''Unknown error'')]"
    using c unfolding batchItem_cases Let_def v_def buf_def entry_def by auto
  have f4: "\<forall>ocr sa token xb url xc e sd. valid v
          \<and> processImageWithOcr env buf (i_language img) s1 = (Inr ocr, sa)
          \<and> o_success ocr
          \<and> nanoid env (ext sa) = (token, xb)
          \<and> storagePut env (fileKeyOf env ctxUserId token (i_fileName img)) buf
               (i_mimeType img) xb = (Inr url, xc)
          \<and> saveOcrResult env
               \<lparr>userId = ctxUserId, imageFileName = i_fileName img, imageUrl = url,
                extractedText = o_text ocr, confidence = o_confidence ocr,
                language = i_language img, processingTimeMs = o_processingTimeMs ocr\<rparr>
               (sa\<lparr>ext := xc\<rparr>) = (Inl e, sd) \<longrightarrow>
          rs2 = rs1 \<and> es2 = es1 @ [entry (errorMessage e ''Unknown error'')]"
    using c unfolding batchItem_cases Let_def v_def buf_def entry_def by auto
  have r: "results out = rs2 @ rs3" and e: "errors out = es2 @ es3" by (simp_all add: out_def)
  have a': "batchLoop env ctxUserId after (rs2, es2) s2 = (Inr (results out, errors out), s3)"
    using a by (simp add: r e)
  have ext: "\<exists>rs3 es3. results out = rs2 @ rs3 \<and> errors out = es2 @ es3
          \<and> length rs3 + length es3 = length after"
    using r e len by blast
  show ?thesis
    by (rule exI [of _ rs1], rule exI [of _ es1], rule exI [of _ s1], rule exI [of _ rs2],
        rule exI [of _ es2], rule exI [of _ s2], rule exI [of _ out], rule exI [of _ s3])
       (intro conjI, rule b, rule i, rule a', rule p, rule one, rule ext,
        rule f1, rule f2, rule f3, rule f4)
qed

theorem processBatch_isolates_failures_witness:
  "processBatch flakyEnv 7 demoBatch demoState =
     (Inr \<lparr>b_success = True,
           results =
             [\<lparr>r_fileName = ''scan.png'', r_text = ''hello'', r_confidence = Num 50,
               r_processingTimeMs = 40,
               r_imageUrl = ''https://files/ocr/7/V1StGXR8-scan.png'', r_success = True\<rparr>],
           errors =
             [\<lparr>e_fileName = ''a.pdf'',
               e_error = ''Unsupported image format. Allowed: image/jpeg, image/png, image/webp, image/tiff''\<rparr>,
              \<lparr>e_fileName = ''b.png'', e_error = ''Unknown error''\<rparr>,
              \<lparr>e_fileName = ''c.webp'', e_error = ''bucket unreachable''\<rparr>,
              \<lparr>e_fileName = ''d.png'', e_error = ''Data too long for column language''\<rparr>],
           totalProcessed = 1, totalFailed = 4\<rparr>,
      demoState
        \<lparr>ocrWorker := Some (Worker 0), db_handle := Some (DbHandle ''mysql://db''),
         ocrResults :=
           [\<lparr>userId = 7, imageFileName = ''scan.png'',
             imageUrl = ''https://files/ocr/7/V1StGXR8-scan.png'', extractedText = ''hello'',
             confidence = Num 50, language = ''eng'', processingTimeMs = 40, rowId = 1\<rparr>],
         nextId := 2, ext := \<lparr>clock = 1120, constructed = 1\<rparr>\<rparr>)"
  using processBatch_isolates_failures [where env = flakyEnv and ctxUserId = 7
      and before = "take 3 demoBatch" and img = "demoBatch ! 3" and after = "drop 4 demoBatch"
      and s = demoState]
  by (simp add: run_simps)

section \<open>The result store\<close>

text \<open>
  C8. \<^verbatim>\<open>deleteOcrResult(id, userId)\<close> leaves the records of every other user as they
  were, in every case (store unavailable, statement refused, statement run): a record
  of another user is still stored afterwards, a record that is gone had the given id and
  the given user, and no record is added.
\<close>

theorem deleteOcrResult_only_own_records:
  "filter (\<lambda>row. userId row \<noteq> userIdArg) (ocrResults (snd (deleteOcrResult env idArg userIdArg s)))
     = filter (\<lambda>row. userId row \<noteq> userIdArg) (ocrResults s)
   \<and> (row \<in> set (ocrResults s) \<and> userId row \<noteq> userIdArg \<longrightarrow>
        row \<in> set (ocrResults (snd (deleteOcrResult env idArg userIdArg s))))
   \<and> (row \<in> set (ocrResults s)
        \<and> row \<notin> set (ocrResults (snd (deleteOcrResult env idArg userIdArg s))) \<longrightarrow>
        userId row = userIdArg \<and> rowId row = idArg)
   \<and> set (ocrResults (snd (deleteOcrResult env idArg userIdArg s))) \<subseteq> set (ocrResults s)"
proof -
  have f: "filter (\<lambda>row. userId row \<noteq> userIdArg)
             (filter (\<lambda>row. \<not> (rowId row = idArg \<and> userId row = userIdArg)) (ocrResults s))
           = filter (\<lambda>row. userId row \<noteq> userIdArg) (ocrResults s)"
    by (induction "ocrResults s") (auto intro: filter_cong)
  from deleteOcrResult_table [of env idArg userIdArg s] f show ?thesis
    by auto
qed

theorem deleteOcrResult_only_own_records_witness:
  "ocrResults (snd (deleteOcrResult demoEnv 2 7 demoStore)) = [demoRow 1 7, demoRow 2 8]
   \<and> ocrResults (snd (deleteOcrResult demoEnv 1 7 demoStore)) = [demoRow 2 8]
   \<and> demoRow 2 8 \<in> set (ocrResults (snd (deleteOcrResult demoEnv 2 7 demoStore)))"
  using
    deleteOcrResult_only_own_records [where env = demoEnv and idArg = 2 and userIdArg = 7
      and s = demoStore and row = "demoRow 2 8"]
    deleteOcrResult_only_own_records [where env = demoEnv and idArg = 1 and userIdArg = 7
      and s = demoStore and row = "demoRow 1 7"]
  by (simp add: run_simps)

text \<open>
  C10. When \<^verbatim>\<open>getDb\<close> yields a handle and the delete statement does not throw,
  \<^verbatim>\<open>deleteOcrResult\<close> returns \<^verbatim>\<open>true\<close> and \<^verbatim>\<open>deleteResult\<close> returns \<open>{success: true}\<close>,
  whatever the table holds; in particular when every record has another id or another
  owner, nothing is deleted and the answers are the same.
\<close>

theorem deleteOcrResult_reports_true:
  assumes "getDb env s = (Inr (Some h), s1)"
    and "execute env (DeleteOcrResult idArg ctxUserId) (ext s1) = (Inr (), x)"
  shows "fst (deleteOcrResult env idArg ctxUserId s) = Inr True
       \<and> fst (deleteResult env ctxUserId idArg s) = Inr \<lparr>d_success = True\<rparr>
       \<and> (list_all (\<lambda>row. rowId row \<noteq> idArg \<or> userId row \<noteq> ctxUserId) (ocrResults s) \<longrightarrow>
            ocrResults (snd (deleteOcrResult env idArg ctxUserId s)) = ocrResults s
            \<and> ocrResults (snd (deleteResult env ctxUserId idArg s)) = ocrResults s)"
proof -
  from assms(1) have t: "ocrResults s1 = ocrResults s"
    using getDb_returns [of env s] by auto
  have d: "deleteOcrResult env idArg ctxUserId s =
      (Inr True, s1\<lparr>ext := x,
         ocrResults := filter (\<lambda>row. \<not> (rowId row = idArg \<and> userId row = ctxUserId)) (ocrResults s)\<rparr>)"
    using assms by (simp add: deleteOcrResult_cases t)
  have n: "list_all (\<lambda>row. rowId row \<noteq> idArg \<or> userId row \<noteq> ctxUserId) (ocrResults s) \<Longrightarrow>
      filter (\<lambda>row. \<not> (rowId row = idArg \<and> userId row = ctxUserId)) (ocrResults s) = ocrResults s"
    by (simp add: list_all_iff)
  from d n show ?thesis
    by (auto simp: deleteResult_def tryCatch_def andThen_def ret_def)
qed

theorem deleteOcrResult_reports_true_witness:
  "deleteOcrResult demoEnv 2 7 demoStore =
     (Inr True, demoStore\<lparr>db_handle := Some (DbHandle ''mysql://db'')\<rparr>)
   \<and> deleteOcrResult demoEnv 99 7 demoStore =
     (Inr True, demoStore\<lparr>db_handle := Some (DbHandle ''mysql://db'')\<rparr>)
   \<and> deleteResult demoEnv 7 2 demoStore =
     (Inr \<lparr>d_success = True\<rparr>, demoStore\<lparr>db_handle := Some (DbHandle ''mysql://db'')\<rparr>)"
proof -
  let ?s1 = "demoStore\<lparr>db_handle := Some (DbHandle ''mysql://db'')\<rparr>"
  have g: "getDb demoEnv demoStore = (Inr (Some (DbHandle ''mysql://db'')), ?s1)"
    by (simp add: run_simps)
  have e2: "execute demoEnv (DeleteOcrResult 2 7) (ext ?s1) = (Inr (), ext demoStore)"
    by (simp add: demoEnv_def)
  have e99: "execute demoEnv (DeleteOcrResult 99 7) (ext ?s1) = (Inr (), ext demoStore)"
    by (simp add: demoEnv_def)
  from deleteOcrResult_reports_true [OF g e2] deleteOcrResult_reports_true [OF g e99]
  show ?thesis by (simp add: run_simps)
qed

text \<open>
  C9. When the store is unavailable \<^verbatim>\<open>saveOcrResult\<close> returns \<^verbatim>\<open>undefined\<close> without
  throwing and without storing anything. When moreover the image is valid, recognized
  and uploaded, the store is still unavailable when the record is saved,
  \<^verbatim>\<open>processImage\<close> returns \<^verbatim>\<open>success = true\<close> with the extracted text, and the iteration of
  \<^verbatim>\<open>processBatch\<close> appends the image to \<^verbatim>\<open>results\<close>, from any contents of the arrays; a
  batch of that one image reports \<^verbatim>\<open>totalProcessed = 1\<close> and no error.
\<close>

theorem unavailable_store_is_success:
  fixes env :: "'x env" and img :: image_input
  defines "buf \<equiv> base64Decode env (i_imageData img)"
  assumes down: "storeUnavailable env s"
    and ok: "valid (validateImageFile (numberToString env) buf (i_mimeType img) None)"
    and ocr: "processImageWithOcr env buf (i_language img) s = (Inr out, s1)"
    and success: "o_success out"
    and token: "nanoid env (ext s1) = (token, x2)"
    and put: "storagePut env (fileKeyOf env ctxUserId token (i_fileName img)) buf
                (i_mimeType img) x2 = (Inr url, x3)"
  shows "saveOcrResult env record s = (Inr None, s)
       \<and> saveOcrResult env record (s1\<lparr>ext := x3\<rparr>) = (Inr None, s1\<lparr>ext := x3\<rparr>)
       \<and> processImage env ctxUserId img s =
           (Inr \<lparr>p_success = True, p_text = o_text out, p_confidence = o_confidence out,
                 p_processingTimeMs = o_processingTimeMs out, p_imageUrl = url\<rparr>,
            s1\<lparr>ext := x3\<rparr>)
       \<and> batchItem env ctxUserId img (rs, es) s =
           (Inr (rs @ [\<lparr>r_fileName = i_fileName img, r_text = o_text out,
                         r_confidence = o_confidence out,
                         r_processingTimeMs = o_processingTimeMs out,
                         r_imageUrl = url, r_success = True\<rparr>], es),
            s1\<lparr>ext := x3\<rparr>)
       \<and> processBatch env ctxUserId [img] s =
           (Inr \<lparr>b_success = True,
                 results = [\<lparr>r_fileName = i_fileName img, r_text = o_text out,
                             r_confidence = o_confidence out,
                             r_processingTimeMs = o_processingTimeMs out,
                             r_imageUrl = url, r_success = True\<rparr>],
                 errors = [], totalProcessed = 1, totalFailed = 0\<rparr>,
            s1\<lparr>ext := x3\<rparr>)"
proof -
  have d: "storeUnavailable env (s1\<lparr>ext := x3\<rparr>)"
    using storeUnavailable_after_ocr [OF down ocr] by simp
  then have sv: "\<And>r. saveOcrResult env r (s1\<lparr>ext := x3\<rparr>) = (Inr None, s1\<lparr>ext := x3\<rparr>)"
    by (rule saveOcrResult_unavailable)
  have item: "\<And>rs es. batchItem env ctxUserId img (rs, es) s =
           (Inr (rs @ [\<lparr>r_fileName = i_fileName img, r_text = o_text out,
                         r_confidence = o_confidence out,
                         r_processingTimeMs = o_processingTimeMs out,
                         r_imageUrl = url, r_success = True\<rparr>], es),
            s1\<lparr>ext := x3\<rparr>)"
    using ok ocr success token put
    by (simp add: batchItem_cases Let_def buf_def [symmetric] sv)
  have single: "processImage env ctxUserId img s =
           (Inr \<lparr>p_success = True, p_text = o_text out, p_confidence = o_confidence out,
                 p_processingTimeMs = o_processingTimeMs out, p_imageUrl = url\<rparr>,
            s1\<lparr>ext := x3\<rparr>)"
    using ok ocr success token put
    by (simp add: processImage_def tryCatch_def andThen_def ret_def Let_def externalTotal_def
          external_def buf_def [symmetric] sv)
  show ?thesis
    by (simp add: sv item single processBatch_def andThen_def ret_def
          saveOcrResult_unavailable [OF down])
qed

theorem unavailable_store_is_success_witness:
  "processImage noDatabaseEnv 7 demoImage demoState =
     (Inr \<lparr>p_success = True, p_text = ''hello'', p_confidence = Num 50,
           p_processingTimeMs = 40,
           p_imageUrl = ''https://files/ocr/7/V1StGXR8-scan.png''\<rparr>,
      demoState\<lparr>ocrWorker := Some (Worker 0), ext := \<lparr>clock = 1040, constructed = 1\<rparr>\<rparr>)
   \<and> processBatch noDatabaseEnv 7 [demoImage] demoState =
     (Inr \<lparr>b_success = True,
           results =
             [\<lparr>r_fileName = ''scan.png'', r_text = ''hello'', r_confidence = Num 50,
               r_processingTimeMs = 40,
               r_imageUrl = ''https://files/ocr/7/V1StGXR8-scan.png'', r_success = True\<rparr>],
           errors = [], totalProcessed = 1, totalFailed = 0\<rparr>,
      demoState\<lparr>ocrWorker := Some (Worker 0), ext := \<lparr>clock = 1040, constructed = 1\<rparr>\<rparr>)"
proof -
  let ?s1 = "demoState\<lparr>ocrWorker := Some (Worker 0), ext := \<lparr>clock = 1040, constructed = 1\<rparr>\<rparr>"
  let ?out = "\<lparr>o_text = ''hello'', o_confidence = Num 50, o_language = ''eng'',
           o_processingTimeMs = 40, o_success = True, o_error = None\<rparr>"
  have down: "storeUnavailable noDatabaseEnv demoState"
    by (simp add: storeUnavailable_def noDatabaseEnv_def demoEnv_def demoState_def strOr_def)
  have ok: "valid (validateImageFile (numberToString noDatabaseEnv)
      (base64Decode noDatabaseEnv (i_imageData demoImage)) (i_mimeType demoImage) None)"
    by (simp add: run_simps)
  have ocr: "processImageWithOcr noDatabaseEnv (base64Decode noDatabaseEnv (i_imageData demoImage))
      (i_language demoImage) demoState = (Inr ?out, ?s1)"
    by (simp add: run_simps)
  have success: "o_success ?out" by simp
  have token: "nanoid noDatabaseEnv (ext ?s1) = (''V1StGXR8'', ext ?s1)"
    by (simp add: noDatabaseEnv_def demoEnv_def)
  have put: "storagePut noDatabaseEnv (fileKeyOf noDatabaseEnv 7 ''V1StGXR8'' (i_fileName demoImage))
      (base64Decode noDatabaseEnv (i_imageData demoImage)) (i_mimeType demoImage) (ext ?s1)
      = (Inr ''https://files/ocr/7/V1StGXR8-scan.png'', ext ?s1)"
    by (simp add: run_simps)
  from unavailable_store_is_success [OF down ok ocr success token put]
  show ?thesis by (simp add: demoImage_def demoState_def)
qed

end
